theory Spec2Isabelle
  imports Complex_Main "HOL-Library.Word"
begin

unbundle bit_operations_syntax

section \<open>Data model\<close>

text \<open>
  A shallow embedding of the Raydium V4 swap client (\<^verbatim>\<open>src/main.go\<close>,
  \<^verbatim>\<open>src/raydium_swap.go\<close>, \<^verbatim>\<open>src/main_working.go\<close>).
  Go's \<^verbatim>\<open>uint8\<close> and \<^verbatim>\<open>uint64\<close> are words, \<^verbatim>\<open>math/big\<close>
  integers are \<^typ>\<open>int\<close>, byte slices are lists of bytes, and a
  \<^verbatim>\<open>solana.PublicKey\<close> (a 32-byte array) is the list of its bytes.
  Every error return and every panic of the source is an \<open>Inl\<close> value.
\<close>

type_synonym byte = "8 word"
type_synonym u64 = "64 word"
type_synonym PublicKey = "byte list"

datatype error =
    DivisionByZero              \<comment> \<open>panic of \<^verbatim>\<open>big.Int.Div\<close> on a zero denominator\<close>
  | NilPointer                  \<comment> \<open>panic: \<^verbatim>\<open>accountInfo.Value\<close> is nil\<close>
  | InvalidPoolDataSize nat     \<comment> \<open>\<^verbatim>\<open>invalid pool data size: %d\<close>\<close>
  | DeriveAuthorityFailed       \<comment> \<open>\<^verbatim>\<open>failed to derive authority PDA\<close>\<close>
  | VaultSignerFailed           \<comment> \<open>\<^verbatim>\<open>failed to find market vault signer PDA\<close>\<close>
  | GetBaseVaultBalanceFailed   \<comment> \<open>\<^verbatim>\<open>failed to get base vault balance\<close>\<close>
  | GetQuoteVaultBalanceFailed  \<comment> \<open>\<^verbatim>\<open>failed to get quote vault balance\<close>\<close>
  | ParseBaseAmountFailed       \<comment> \<open>\<^verbatim>\<open>failed to parse base amount\<close>\<close>
  | ParseQuoteAmountFailed      \<comment> \<open>\<^verbatim>\<open>failed to parse quote amount\<close>\<close>
  | GetMarketAccountFailed      \<comment> \<open>\<^verbatim>\<open>failed to get market account\<close>\<close>
  | GetMintAccountFailed        \<comment> \<open>\<^verbatim>\<open>failed to get mint account\<close>\<close>
  | InvalidMintDataSize         \<comment> \<open>\<^verbatim>\<open>invalid mint data size\<close>\<close>
  | EncodeInstructionFailed     \<comment> \<open>\<^verbatim>\<open>failed to encode instruction\<close>\<close>
  | InvalidBase58               \<comment> \<open>panic of \<^verbatim>\<open>MustPublicKeyFromBase58\<close>, or its error form\<close>
  | FindATAFailed               \<comment> \<open>\<^verbatim>\<open>failed to find ATA\<close>\<close>
  | GetPoolAccountFailed        \<comment> \<open>\<^verbatim>\<open>failed to get pool account\<close>\<close>
  | GetPoolInfoFailed           \<comment> \<open>\<^verbatim>\<open>failed to get pool info\<close>\<close>
  | InvalidSlippageValue        \<comment> \<open>\<^verbatim>\<open>invalid slippage value\<close>\<close>
  | SlippageOutOfRange          \<comment> \<open>\<^verbatim>\<open>slippage must be between 0 and 100\<close>\<close>

text \<open>
  \<^verbatim>\<open>OnChainPool\<close> (main.go:81). \<open>zeroPool\<close> is Go's zero value of the struct.
\<close>

record OnChainPool =
  Address :: PublicKey
  BaseMint :: PublicKey
  QuoteMint :: PublicKey
  BaseVault :: PublicKey
  QuoteVault :: PublicKey
  BaseAmount :: u64
  QuoteAmount :: u64
  BaseDecimals :: byte
  QuoteDecimals :: byte
  Authority :: PublicKey
  OpenOrders :: PublicKey
  TargetOrders :: PublicKey
  MarketProgram :: PublicKey
  Market :: PublicKey
  MarketBids :: PublicKey
  MarketAsks :: PublicKey
  MarketEventQueue :: PublicKey
  MarketBaseVault :: PublicKey
  MarketQuoteVault :: PublicKey
  Nonce :: byte
  MarketNonce :: byte

definition zeroPublicKey :: PublicKey where
  "zeroPublicKey = replicate 32 0"

definition zeroPool :: OnChainPool where
  "zeroPool = \<lparr>Address = zeroPublicKey, BaseMint = zeroPublicKey, QuoteMint = zeroPublicKey,
     BaseVault = zeroPublicKey, QuoteVault = zeroPublicKey, BaseAmount = 0, QuoteAmount = 0,
     BaseDecimals = 0, QuoteDecimals = 0, Authority = zeroPublicKey, OpenOrders = zeroPublicKey,
     TargetOrders = zeroPublicKey, MarketProgram = zeroPublicKey, Market = zeroPublicKey,
     MarketBids = zeroPublicKey, MarketAsks = zeroPublicKey, MarketEventQueue = zeroPublicKey,
     MarketBaseVault = zeroPublicKey, MarketQuoteVault = zeroPublicKey, Nonce = 0,
     MarketNonce = 0\<rparr>"

text \<open>
  \<^verbatim>\<open>PublicKey.IsZero\<close> compares with the all-zero key; \<^verbatim>\<open>PublicKeyFromBytes\<close>
  copies at most 32 bytes of the slice into a zeroed array.
\<close>

definition IsZero :: "PublicKey \<Rightarrow> bool" where
  "IsZero p \<longleftrightarrow> p = zeroPublicKey"

definition PublicKeyFromBytes :: "byte list \<Rightarrow> PublicKey" where
  "PublicKeyFromBytes bs = take 32 bs @ replicate (32 - length bs) 0"

text \<open>
  The slice expression \<^verbatim>\<open>data[lo:hi]\<close>. Go panics when \<open>hi\<close> exceeds the length;
  every use below is behind a length check that rules this out.
\<close>

definition slice :: "byte list \<Rightarrow> nat \<Rightarrow> nat \<Rightarrow> byte list" where
  "slice data lo hi = take (hi - lo) (drop lo data)"

subsection \<open>Constants of main.go\<close>

definition RAYDIUM_AMM_V4 :: PublicKey where
  \<comment> \<open>base58 \<^verbatim>\<open>675kPX9MHTjS2zt1qfr1NYHuzeLXfQM9H24wFSUt1Mp8\<close>\<close>
  "RAYDIUM_AMM_V4 = [75, 217, 73, 196, 54, 2, 195, 63, 32, 119, 144, 237, 22, 163, 82, 76,
     161, 185, 151, 92, 241, 33, 162, 169, 12, 255, 236, 125, 248, 182, 138, 205]"

definition OPENBOOK_PROGRAM :: PublicKey where
  \<comment> \<open>base58 \<^verbatim>\<open>srmqPvymJeFKQ4zGQed1GFppgkRHL9kaELCbyksJtPX\<close>\<close>
  "OPENBOOK_PROGRAM = [13, 7, 81, 168, 40, 45, 166, 19, 5, 254, 41, 156, 55, 185, 152, 229,
     132, 113, 219, 17, 53, 3, 115, 16, 248, 190, 16, 69, 166, 10, 246, 238]"

definition WSOL_MINT :: PublicKey where
  \<comment> \<open>base58 \<^verbatim>\<open>So11111111111111111111111111111111111111112\<close>\<close>
  "WSOL_MINT = [6, 155, 136, 87, 254, 171, 129, 132, 251, 104, 127, 99, 70, 24, 192, 53,
     218, 196, 57, 220, 26, 235, 59, 85, 152, 160, 240, 0, 0, 0, 0, 1]"

definition SOL_DECIMALS :: nat where
  "SOL_DECIMALS = 9"

definition RAYDIUM_SWAP_INSTRUCTION :: byte where
  "RAYDIUM_SWAP_INSTRUCTION = 9"

definition AUTHORITY_AMM_SEED :: string where
  "AUTHORITY_AMM_SEED = ''amm authority''"

definition bytes_of :: "string \<Rightarrow> byte list" where
  \<comment> \<open>the conversion \<^verbatim>\<open>[]byte(s)\<close>\<close>
  "bytes_of s = map of_char s"

subsection \<open>External collaborators\<close>

text \<open>
  The solana-go library, the RPC client and the Go runtime are not part of the
  repository. What the code calls on them is a field of one of three records, passed
  to every function that uses it. The ledger is read as a snapshot: a query gives the
  same answer throughout one run. \<^verbatim>\<open>solana.SolMint\<close> is the library constant
  behind \<^verbatim>\<open>SOL_MINT\<close>.
\<close>

record solana_lib =
  SolMint :: PublicKey
  SystemProgramID :: PublicKey
  TokenProgramID :: PublicKey
  CreateProgramAddress :: "byte list list \<Rightarrow> PublicKey \<Rightarrow> PublicKey option"
  FindProgramAddress :: "byte list list \<Rightarrow> PublicKey \<Rightarrow> (PublicKey \<times> byte) option"
  FindAssociatedTokenAddress :: "PublicKey \<Rightarrow> PublicKey \<Rightarrow> PublicKey option"
  PublicKeyFromBase58 :: "string \<Rightarrow> PublicKey option"
  BorshEncode :: "byte \<Rightarrow> u64 \<Rightarrow> u64 \<Rightarrow> byte list option"

datatype account_info =
    RpcError                 \<comment> \<open>\<^verbatim>\<open>err != nil\<close>\<close>
  | NilValue                 \<comment> \<open>no error, \<^verbatim>\<open>Value == nil\<close>\<close>
  | AccountData "byte list"  \<comment> \<open>\<^verbatim>\<open>Value.Data.GetBinary()\<close>\<close>

record rpc_client =
  GetAccountInfo :: "PublicKey \<Rightarrow> account_info"
  GetTokenAccountBalance :: "PublicKey \<Rightarrow> string option"

text \<open>
  A \<^verbatim>\<open>float64\<close> is modelled by the value it denotes: a rational, an infinity or
  NaN (the two zeros compare equal and share \<open>Finite 0\<close>). Comparisons are exact on
  these values and are defined here; arithmetic rounds, so multiplication, powers of ten
  and the conversions to and from integers are fields of the runtime record, as are the
  \<^verbatim>\<open>strconv\<close> and \<^verbatim>\<open>strings\<close> functions the code calls.
  \<^verbatim>\<open>ParseUint\<close> gives its value together with the flag \<^verbatim>\<open>err != nil\<close>.
\<close>

datatype float64 = Finite rat | PosInf | NegInf | NaN

fun f_less :: "float64 \<Rightarrow> float64 \<Rightarrow> bool" where
  "f_less NaN _ = False"
| "f_less _ NaN = False"
| "f_less (Finite a) (Finite b) = (a < b)"
| "f_less (Finite _) PosInf = True"
| "f_less NegInf (Finite _) = True"
| "f_less NegInf PosInf = True"
| "f_less _ _ = False"

fun f_eq :: "float64 \<Rightarrow> float64 \<Rightarrow> bool" where
  "f_eq (Finite a) (Finite b) = (a = b)"
| "f_eq PosInf PosInf = True"
| "f_eq NegInf NegInf = True"
| "f_eq _ _ = False"

record go_runtime =
  TrimSpace :: "string \<Rightarrow> string"
  ParseFloat :: "string \<Rightarrow> float64 option"
  ParseUint :: "string \<Rightarrow> u64 \<times> bool"
  fmul :: "float64 \<Rightarrow> float64 \<Rightarrow> float64"
  Pow10 :: "nat \<Rightarrow> float64"
  float_of_int :: "int \<Rightarrow> float64"
  to_uint64 :: "float64 \<Rightarrow> u64"

section \<open>Account decoder\<close>

text \<open>
  \<^verbatim>\<open>parsePoolAccount\<close> (main.go:1076). The nonce-mismatch warning is printed output
  only and changes no value.
\<close>

definition parsePoolAccount :: "solana_lib \<Rightarrow> PublicKey \<Rightarrow> byte list \<Rightarrow> error + OnChainPool" where
  "parsePoolAccount L address data =
     (if length data < 752 then Inl (InvalidPoolDataSize (length data))
      else
        let pool = zeroPool\<lparr>Address := address\<rparr>;
            pool = pool\<lparr>Nonce := data ! 8\<rparr>;
            pool = pool\<lparr>BaseVault := PublicKeyFromBytes (slice data 336 368)\<rparr>;
            pool = pool\<lparr>QuoteVault := PublicKeyFromBytes (slice data 368 400)\<rparr>;
            pool = pool\<lparr>BaseMint := PublicKeyFromBytes (slice data 400 432)\<rparr>;
            pool = pool\<lparr>QuoteMint := PublicKeyFromBytes (slice data 432 464)\<rparr>;
            pool = pool\<lparr>OpenOrders := PublicKeyFromBytes (slice data 464 496)\<rparr>;
            pool = pool\<lparr>TargetOrders := PublicKeyFromBytes (slice data 592 624)\<rparr>;
            pool = pool\<lparr>Market := PublicKeyFromBytes (slice data 656 688)\<rparr>;
            pool = pool\<lparr>MarketProgram := PublicKeyFromBytes (slice data 688 720)\<rparr>;
            pool = pool\<lparr>BaseAmount := 0\<rparr>;
            pool = pool\<lparr>QuoteAmount := 0\<rparr>
        in case FindProgramAddress L [bytes_of AUTHORITY_AMM_SEED] RAYDIUM_AMM_V4 of
             None \<Rightarrow> Inl DeriveAuthorityFailed
           | Some (authority, nonce) \<Rightarrow> Inr (pool\<lparr>Authority := authority\<rparr>))"

text \<open>
  \<^verbatim>\<open>fetchVaultBalances\<close> (main.go:1207) writes through the pool pointer, so the pool
  is returned next to the error: an amount is assigned before its parse error is
  checked.
\<close>

definition fetchVaultBalances ::
  "go_runtime \<Rightarrow> rpc_client \<Rightarrow> OnChainPool \<Rightarrow> error option \<times> OnChainPool" where
  "fetchVaultBalances G C pool =
     (case GetTokenAccountBalance C (BaseVault pool) of
        None \<Rightarrow> (Some GetBaseVaultBalanceFailed, pool)
      | Some baseAmount \<Rightarrow>
     (case GetTokenAccountBalance C (QuoteVault pool) of
        None \<Rightarrow> (Some GetQuoteVaultBalanceFailed, pool)
      | Some quoteAmount \<Rightarrow>
          let (b, berr) = ParseUint G baseAmount;
              pool = pool\<lparr>BaseAmount := b\<rparr>
          in if berr then (Some ParseBaseAmountFailed, pool)
             else
               let (q, qerr) = ParseUint G quoteAmount;
                   pool = pool\<lparr>QuoteAmount := q\<rparr>
               in if qerr then (Some ParseQuoteAmountFailed, pool)
                  else (None, pool)))"

text \<open>
  \<^verbatim>\<open>fetchMarketData\<close> (main.go:1129). Its only error return precedes every write
  to the pool. The test \<^verbatim>\<open>len(marketData) > 45\<close> always holds behind the length
  check.
\<close>

definition marketFallback :: "solana_lib \<Rightarrow> OnChainPool \<Rightarrow> OnChainPool" where
  "marketFallback L pool =
     pool\<lparr>MarketBaseVault := BaseVault pool, MarketQuoteVault := QuoteVault pool,
          MarketBids := SystemProgramID L, MarketAsks := SystemProgramID L,
          MarketEventQueue := SystemProgramID L\<rparr>"

definition fetchMarketData :: "solana_lib \<Rightarrow> rpc_client \<Rightarrow> OnChainPool \<Rightarrow> error + OnChainPool" where
  "fetchMarketData L C pool =
     (if IsZero (Market pool) then Inr ((marketFallback L pool)\<lparr>MarketNonce := 0\<rparr>)
      else case GetAccountInfo C (Market pool) of
             RpcError \<Rightarrow> Inl GetMarketAccountFailed
           | NilValue \<Rightarrow> Inl NilPointer
           | AccountData marketData \<Rightarrow>
               if length marketData < 388
               then Inr ((marketFallback L pool)\<lparr>MarketNonce := 0\<rparr>)
               else
                 let pool = pool\<lparr>MarketBaseVault := PublicKeyFromBytes (slice marketData 84 116)\<rparr>;
                     pool = pool\<lparr>MarketQuoteVault := PublicKeyFromBytes (slice marketData 116 148)\<rparr>;
                     pool = pool\<lparr>MarketBids := PublicKeyFromBytes (slice marketData 316 348)\<rparr>;
                     pool = pool\<lparr>MarketAsks := PublicKeyFromBytes (slice marketData 348 380)\<rparr>;
                     pool = pool\<lparr>MarketEventQueue := PublicKeyFromBytes (slice marketData 252 284)\<rparr>
                 in Inr (if length marketData > 45 then pool\<lparr>MarketNonce := marketData ! 45\<rparr>
                         else pool))"

text \<open>
  \<^verbatim>\<open>getTokenDecimals\<close> (main.go:1178). The caller passes \<^verbatim>\<open>mint.String()\<close>, and
  the function compares and decodes that base58 text; base58 is injective, so the model
  works on the key itself and the decoding error cannot occur.
\<close>

definition getTokenDecimals :: "solana_lib \<Rightarrow> rpc_client \<Rightarrow> PublicKey \<Rightarrow> error + byte" where
  "getTokenDecimals L C mint =
     (if mint = WSOL_MINT \<or> mint = SolMint L then Inr (of_nat SOL_DECIMALS)
      else case GetAccountInfo C mint of
             RpcError \<Rightarrow> Inl GetMintAccountFailed
           | NilValue \<Rightarrow> Inl NilPointer
           | AccountData mintData \<Rightarrow>
               if length mintData < 82 then Inl InvalidMintDataSize
               else Inr (mintData ! 44))"


section \<open>Instruction compiler\<close>

record AccountMeta =
  PublicKey :: PublicKey
  IsSigner :: bool
  IsWritable :: bool

record Instruction =
  ProgramID :: PublicKey
  Accounts :: "AccountMeta list"
  Data :: "byte list"

text \<open>
  \<^verbatim>\<open>binary.LittleEndian.PutUint64\<close>: byte \<open>i\<close> of the buffer is
  \<^verbatim>\<open>byte(v >> (8*i))\<close>.
\<close>

definition PutUint64 :: "u64 \<Rightarrow> byte list" where
  "PutUint64 v = [ucast v, ucast (drop_bit 8 v), ucast (drop_bit 16 v), ucast (drop_bit 24 v),
     ucast (drop_bit 32 v), ucast (drop_bit 40 v), ucast (drop_bit 48 v), ucast (drop_bit 56 v)]"

text \<open>
  The payload written at the head of \<^verbatim>\<open>createSwapInstruction\<close> (main.go:252-266):
  the opcode byte, then the two amounts.
\<close>

definition encodeSwapData :: "u64 \<Rightarrow> u64 \<Rightarrow> byte list" where
  "encodeSwapData amountIn minAmountOut =
     [RAYDIUM_SWAP_INSTRUCTION] @ PutUint64 amountIn @ PutUint64 minAmountOut"

text \<open>
  The search loop of \<^verbatim>\<open>createSwapInstruction\<close> (main.go:275-288),
  \<^verbatim>\<open>for nonce := uint8(0); nonce < 255; nonce++\<close>, started at \<open>nonce\<close>: the first
  candidate that \<^verbatim>\<open>CreateProgramAddress\<close> accepts, or \<open>None\<close> when the loop ends
  with \<^verbatim>\<open>found\<close> false.
\<close>

function vaultSignerLoop :: "solana_lib \<Rightarrow> PublicKey \<Rightarrow> PublicKey \<Rightarrow> byte \<Rightarrow> PublicKey option" where
  "vaultSignerLoop L market marketProgram nonce =
     (if nonce < 255
      then (case CreateProgramAddress L [market, [nonce]] marketProgram of
              Some candidate \<Rightarrow> Some candidate
            | None \<Rightarrow> vaultSignerLoop L market marketProgram (nonce + 1))
      else None)"
  by pat_completeness auto
termination
proof (relation "measure (\<lambda>(L, market, marketProgram, nonce). 255 - unat nonce)")
  show "wf (measure (\<lambda>(L, market, marketProgram, nonce). 255 - unat nonce))" by simp
next
  fix L :: solana_lib and market marketProgram :: PublicKey and nonce :: byte
  assume "nonce < 255"
  then have small: "unat nonce < 255" by (simp add: word_less_nat_alt)
  then have "unat (nonce + 1) = unat nonce + 1" by (simp add: unat_word_ariths)
  with small
  show "((L, market, marketProgram, nonce + 1), (L, market, marketProgram, nonce))
        \<in> measure (\<lambda>(L, market, marketProgram, nonce). 255 - unat nonce)"
    by simp
qed

text \<open>
  The vault-signer block (main.go:268-304). The inner \<^verbatim>\<open>err\<close> of the loop shadows
  the outer one, so the error test after the block sees only the fallback call of
  \<^verbatim>\<open>FindProgramAddress\<close>. The two \<^verbatim>\<open>String()\<close> values are equal exactly when the
  keys are.
\<close>

definition marketVaultSigner :: "solana_lib \<Rightarrow> OnChainPool \<Rightarrow> error + PublicKey" where
  "marketVaultSigner L pool =
     (if \<not> IsZero (Market pool) \<and> MarketProgram pool = OPENBOOK_PROGRAM
      then (case vaultSignerLoop L (Market pool) (MarketProgram pool) 0 of
              Some candidate \<Rightarrow> Inr candidate
            | None \<Rightarrow>
                (case FindProgramAddress L [Market pool] (MarketProgram pool) of
                   None \<Rightarrow> Inl VaultSignerFailed
                 | Some (signer, bump) \<Rightarrow> Inr signer))
      else Inr (SystemProgramID L))"

definition meta :: "PublicKey \<Rightarrow> bool \<Rightarrow> bool \<Rightarrow> AccountMeta" where
  \<comment> \<open>the literal \<^verbatim>\<open>{PublicKey: k, IsSigner: s, IsWritable: w}\<close>\<close>
  "meta k s w = \<lparr>PublicKey = k, IsSigner = s, IsWritable = w\<rparr>"

text \<open>\<^verbatim>\<open>createSwapInstruction\<close> (main.go:243).\<close>

definition createSwapInstruction ::
  "solana_lib \<Rightarrow> OnChainPool \<Rightarrow> PublicKey \<Rightarrow> PublicKey \<Rightarrow> PublicKey \<Rightarrow> u64 \<Rightarrow> u64 \<Rightarrow> bool
   \<Rightarrow> error + Instruction" where
  "createSwapInstruction L pool userSource userDestination userOwner amountIn minAmountOut
     isBaseToQuote =
     (let buf = encodeSwapData amountIn minAmountOut
      in case marketVaultSigner L pool of
           Inl e \<Rightarrow> Inl e
         | Inr signer \<Rightarrow>
             Inr \<lparr>ProgramID = RAYDIUM_AMM_V4,
                  Accounts =
                    [meta (TokenProgramID L) False False,
                     meta (Address pool) False True,
                     meta (Authority pool) False False,
                     meta (OpenOrders pool) False True,
                     meta (TargetOrders pool) False True,
                     meta (BaseVault pool) False True,
                     meta (QuoteVault pool) False True,
                     meta (MarketProgram pool) False False,
                     meta (Market pool) False True,
                     meta (MarketBids pool) False True,
                     meta (MarketAsks pool) False True,
                     meta (MarketEventQueue pool) False True,
                     meta (MarketBaseVault pool) False True,
                     meta (MarketQuoteVault pool) False True,
                     meta signer False False,
                     meta userSource False True,
                     meta userDestination False True,
                     meta userOwner True False],
                  Data = buf\<rparr>)"


subsection \<open>The API variant (raydium\_swap.go)\<close>

text \<open>
  \<^verbatim>\<open>RaydiumPoolInfo\<close> (raydium\_swap.go:26), with the fields the code reads; the
  prefix keeps them apart from the fields of \<^verbatim>\<open>OnChainPool\<close>.
\<close>

record RaydiumPoolInfo =
  info_ID :: string
  info_BaseMint :: string
  info_QuoteMint :: string
  info_BaseDecimals :: int
  info_QuoteDecimals :: int
  info_ProgramID :: string
  info_Authority :: string
  info_OpenOrders :: string
  info_TargetOrders :: string
  info_BaseVault :: string
  info_QuoteVault :: string
  info_MarketProgramID :: string
  info_MarketID :: string
  info_MarketAuthority :: string
  info_MarketBaseVault :: string
  info_MarketQuoteVault :: string
  info_MarketBids :: string
  info_MarketAsks :: string
  info_MarketEventQueue :: string

definition Must ::
  "solana_lib \<Rightarrow> string \<Rightarrow> (PublicKey \<Rightarrow> error + 'a) \<Rightarrow> error + 'a" where
  \<comment> \<open>\<^verbatim>\<open>k := solana.MustPublicKeyFromBase58(s)\<close>, then the rest of the function\<close>
  "Must L s rest = (case PublicKeyFromBase58 L s of None \<Rightarrow> Inl InvalidBase58 | Some k \<Rightarrow> rest k)"

text \<open>\<^verbatim>\<open>CreateRaydiumSwapInstruction\<close> (raydium\_swap.go:78).\<close>

definition CreateRaydiumSwapInstruction ::
  "solana_lib \<Rightarrow> RaydiumPoolInfo \<Rightarrow> PublicKey \<Rightarrow> PublicKey \<Rightarrow> PublicKey \<Rightarrow> u64 \<Rightarrow> u64
   \<Rightarrow> error + Instruction" where
  "CreateRaydiumSwapInstruction L pool userSourceTokenAccount userDestTokenAccount userOwner
     amountIn minAmountOut =
     (case BorshEncode L 9 amountIn minAmountOut of
        None \<Rightarrow> Inl EncodeInstructionFailed
      | Some buf \<Rightarrow>
          Must L (info_ID pool) (\<lambda>poolPubkey.
          Must L (info_Authority pool) (\<lambda>authority.
          Must L (info_OpenOrders pool) (\<lambda>openOrders.
          Must L (info_TargetOrders pool) (\<lambda>targetOrders.
          Must L (info_BaseVault pool) (\<lambda>baseVault.
          Must L (info_QuoteVault pool) (\<lambda>quoteVault.
          Must L (info_MarketProgramID pool) (\<lambda>marketProgram.
          Must L (info_MarketID pool) (\<lambda>market.
          Must L (info_MarketBids pool) (\<lambda>marketBids.
          Must L (info_MarketAsks pool) (\<lambda>marketAsks.
          Must L (info_MarketEventQueue pool) (\<lambda>marketEventQueue.
          Must L (info_MarketBaseVault pool) (\<lambda>marketBaseVault.
          Must L (info_MarketQuoteVault pool) (\<lambda>marketQuoteVault.
          Must L (info_MarketAuthority pool) (\<lambda>marketAuthority.
          Must L (info_ProgramID pool) (\<lambda>programID.
            Inr \<lparr>ProgramID = programID,
                 Accounts =
                   [meta (TokenProgramID L) False False,
                    meta poolPubkey False True,
                    meta authority False False,
                    meta openOrders False True,
                    meta targetOrders False True,
                    meta baseVault False True,
                    meta quoteVault False True,
                    meta marketProgram False False,
                    meta market False True,
                    meta marketBids False True,
                    meta marketAsks False True,
                    meta marketEventQueue False True,
                    meta marketBaseVault False True,
                    meta marketQuoteVault False True,
                    meta marketAuthority False False,
                    meta userSourceTokenAccount False True,
                    meta userDestTokenAccount False True,
                    meta userOwner True False],
                 Data = buf\<rparr>))))))))))))))))"

text \<open>
  The raw input amount of \<^verbatim>\<open>ExecuteRaydiumSwap\<close> (raydium\_swap.go:172-182):
  \<^verbatim>\<open>uint64(amountIn * 1e9)\<close> on a buy and
  \<^verbatim>\<open>uint64(amountIn * float64(pool.QuoteDecimals))\<close> otherwise.
\<close>

definition raydiumAmountInRaw :: "go_runtime \<Rightarrow> RaydiumPoolInfo \<Rightarrow> string \<Rightarrow> float64 \<Rightarrow> u64" where
  "raydiumAmountInRaw G pool side amountIn =
     (if side = ''buy'' then to_uint64 G (fmul G amountIn (Finite 1000000000))
      else to_uint64 G (fmul G amountIn (float_of_int G (info_QuoteDecimals pool))))"

text \<open>
  \<^verbatim>\<open>ExecuteRaydiumSwap\<close> (raydium\_swap.go:144) up to its instruction list.
  \<open>fetched\<close> is the result of \<^verbatim>\<open>GetRaydiumPoolInfo\<close>, an HTTP request.
\<close>

definition ExecuteRaydiumSwap ::
  "solana_lib \<Rightarrow> go_runtime \<Rightarrow> RaydiumPoolInfo option \<Rightarrow> PublicKey \<Rightarrow> float64 \<Rightarrow> u64 \<Rightarrow> string
   \<Rightarrow> error + Instruction list" where
  "ExecuteRaydiumSwap L G fetched wallet amountIn minAmountOut side =
     (case fetched of
        None \<Rightarrow> Inl GetPoolInfoFailed
      | Some pool \<Rightarrow>
          Must L (info_BaseMint pool) (\<lambda>baseMint.
          Must L (info_QuoteMint pool) (\<lambda>quoteMint.
            let sourceMint = (if side = ''buy'' then baseMint else quoteMint);
                destMint = (if side = ''buy'' then quoteMint else baseMint);
                amountInRaw = raydiumAmountInRaw G pool side amountIn
            in case FindAssociatedTokenAddress L wallet sourceMint of
                 None \<Rightarrow> Inl FindATAFailed
               | Some sourceAta \<Rightarrow>
                   (case FindAssociatedTokenAddress L wallet destMint of
                      None \<Rightarrow> Inl FindATAFailed
                    | Some destAta \<Rightarrow>
                        (case CreateRaydiumSwapInstruction L pool sourceAta destAta wallet
                                amountInRaw minAmountOut of
                           Inl e \<Rightarrow> Inl e
                         | Inr swapIx \<Rightarrow> Inr [swapIx])))))"


section \<open>Quote engine: the constant-product formula\<close>

text \<open>
  \<^verbatim>\<open>calculateSwapAmount\<close> (main.go:1348). The operands are lifted to big integers,
  multiplied, added and divided there; \<^verbatim>\<open>big.Int.Div\<close> panics on a zero divisor,
  and \<^verbatim>\<open>Uint64()\<close> keeps the low 64 bits of the quotient.
\<close>

definition calculateSwapAmount :: "u64 \<Rightarrow> u64 \<Rightarrow> u64 \<Rightarrow> error + u64" where
  "calculateSwapAmount reserveOut reserveIn amountIn =
     (let numerator = uint reserveOut * uint amountIn;
          denominator = uint reserveIn + uint amountIn
      in if denominator = 0 then Inl DivisionByZero
         else Inr (word_of_int (numerator div denominator)))"

subsection \<open>The on-chain variant: \<^verbatim>\<open>executeSwap\<close> (main.go:379)\<close>

text \<open>
  The instructions of the transaction. The swap carries the instruction built by
  \<^verbatim>\<open>createSwapInstruction\<close>; the others are built by the library from the
  arguments kept here.
\<close>

datatype ix =
    CreateATA PublicKey PublicKey PublicKey
      \<comment> \<open>\<^verbatim>\<open>associatedtokenaccount.NewCreateInstruction(payer, wallet, mint)\<close>\<close>
  | Transfer u64 PublicKey PublicKey
      \<comment> \<open>\<^verbatim>\<open>system.NewTransferInstruction(lamports, from, to)\<close>\<close>
  | SyncNative PublicKey
      \<comment> \<open>\<^verbatim>\<open>token.NewSyncNativeInstruction(account)\<close>\<close>
  | Swap Instruction
  | CloseAccount PublicKey PublicKey PublicKey
      \<comment> \<open>\<^verbatim>\<open>token.NewCloseAccountInstruction(account, destination, owner, [])\<close>\<close>

text \<open>\<^verbatim>\<open>getOrCreateATA\<close> (main.go:215).\<close>

definition getOrCreateATA ::
  "solana_lib \<Rightarrow> rpc_client \<Rightarrow> PublicKey \<Rightarrow> PublicKey \<Rightarrow> error + (PublicKey \<times> ix option)" where
  "getOrCreateATA L C wallet mint =
     (case FindAssociatedTokenAddress L wallet mint of
        None \<Rightarrow> Inl FindATAFailed
      | Some ata \<Rightarrow>
          (case GetAccountInfo C ata of
             AccountData d \<Rightarrow> Inr (ata, None)
           | _ \<Rightarrow> Inr (ata, Some (CreateATA wallet wallet mint))))"

text \<open>
  The direction block (main.go:459-494): source mint, destination mint,
  \<^verbatim>\<open>isBaseToQuote\<close> and \<^verbatim>\<open>inputDecimals\<close>.
\<close>

definition swapDirection ::
  "solana_lib \<Rightarrow> OnChainPool \<Rightarrow> string \<Rightarrow> PublicKey \<times> PublicKey \<times> bool \<times> nat" where
  "swapDirection L pool side =
     (let isBaseSol = (BaseMint pool = WSOL_MINT \<or> BaseMint pool = SolMint L)
      in if side = ''buy''
         then (if isBaseSol then (BaseMint pool, QuoteMint pool, True, SOL_DECIMALS)
               else (QuoteMint pool, BaseMint pool, False, SOL_DECIMALS))
         else (if isBaseSol then (QuoteMint pool, BaseMint pool, False, unat (QuoteDecimals pool))
               else (BaseMint pool, QuoteMint pool, True, unat (BaseDecimals pool))))"

text \<open>
  The conversion \<^verbatim>\<open>uint64(amount * math.Pow(10, float64(inputDecimals)))\<close>
  (main.go:497 and main.go:1321).
\<close>

definition toRawAmount :: "go_runtime \<Rightarrow> float64 \<Rightarrow> nat \<Rightarrow> u64" where
  "toRawAmount G amount inputDecimals = to_uint64 G (fmul G amount (Pow10 G inputDecimals))"

text \<open>
  The instruction list (main.go:499-572), from the values of the direction block and
  the raw amount.
\<close>

definition compileInstructions ::
  "solana_lib \<Rightarrow> rpc_client \<Rightarrow> PublicKey \<Rightarrow> OnChainPool \<Rightarrow> string \<Rightarrow> PublicKey \<Rightarrow> PublicKey
   \<Rightarrow> bool \<Rightarrow> u64 \<Rightarrow> u64 \<Rightarrow> error + ix list" where
  "compileInstructions L C wallet pool side sourceMint destinationMint isBaseToQuote
     amountInRaw minAmountOut =
     (case getOrCreateATA L C wallet sourceMint of
        Inl e \<Rightarrow> Inl e
      | Inr (sourceATA, createSourceIx) \<Rightarrow>
          let instructions = (case createSourceIx of None \<Rightarrow> [] | Some c \<Rightarrow> [c]);
              instructions =
                (if sourceMint = WSOL_MINT \<and> side = ''buy''
                 then instructions @ [Transfer amountInRaw wallet sourceATA] @ [SyncNative sourceATA]
                 else instructions)
          in case getOrCreateATA L C wallet destinationMint of
               Inl e \<Rightarrow> Inl e
             | Inr (destinationATA, createDestIx) \<Rightarrow>
                 let instructions =
                       (case createDestIx of None \<Rightarrow> instructions | Some c \<Rightarrow> instructions @ [c])
                 in case createSwapInstruction L pool sourceATA destinationATA wallet amountInRaw
                           minAmountOut isBaseToQuote of
                      Inl e \<Rightarrow> Inl e
                    | Inr swapIx \<Rightarrow>
                        let instructions = instructions @ [Swap swapIx]
                        in Inr (if destinationMint = WSOL_MINT \<and> side = ''sell''
                                then instructions @ [CloseAccount destinationATA wallet wallet]
                                else instructions))"

text \<open>
  The pool as \<^verbatim>\<open>executeSwap\<close> prepares it (main.go:388-436): decode, decimals, vault
  balances, market data with its fallback. Errors are passed on as they are; the source
  prefixes their text.
\<close>

definition loadPool ::
  "solana_lib \<Rightarrow> go_runtime \<Rightarrow> rpc_client \<Rightarrow> string \<Rightarrow> error + OnChainPool" where
  "loadPool L G C poolAddress =
     (case PublicKeyFromBase58 L poolAddress of
        None \<Rightarrow> Inl InvalidBase58
      | Some poolPubkey \<Rightarrow>
     (case GetAccountInfo C poolPubkey of
        RpcError \<Rightarrow> Inl GetPoolAccountFailed
      | NilValue \<Rightarrow> Inl NilPointer
      | AccountData data \<Rightarrow>
     (case parsePoolAccount L poolPubkey data of
        Inl e \<Rightarrow> Inl e
      | Inr pool \<Rightarrow>
     (case getTokenDecimals L C (BaseMint pool) of
        Inl e \<Rightarrow> Inl e
      | Inr baseDecimals \<Rightarrow>
     (case getTokenDecimals L C (QuoteMint pool) of
        Inl e \<Rightarrow> Inl e
      | Inr quoteDecimals \<Rightarrow>
     (case fetchVaultBalances G C
             (pool\<lparr>BaseDecimals := baseDecimals, QuoteDecimals := quoteDecimals\<rparr>) of
        (Some e, pool) \<Rightarrow> Inl e
      | (None, pool) \<Rightarrow>
     (case fetchMarketData L C pool of
        Inl e \<Rightarrow> (if e = NilPointer then Inl e else Inr (marketFallback L pool))
      | Inr pool \<Rightarrow> Inr pool)))))))"

text \<open>\<^verbatim>\<open>executeSwap\<close> up to the instruction list it signs and sends.\<close>

definition executeSwap ::
  "solana_lib \<Rightarrow> go_runtime \<Rightarrow> rpc_client \<Rightarrow> PublicKey \<Rightarrow> string \<Rightarrow> string \<Rightarrow> float64 \<Rightarrow> u64
   \<Rightarrow> error + ix list" where
  "executeSwap L G C wallet poolAddress side amountIn minAmountOut =
     (case loadPool L G C poolAddress of
        Inl e \<Rightarrow> Inl e
      | Inr pool \<Rightarrow>
          (case swapDirection L pool side of
             (sourceMint, destinationMint, isBaseToQuote, inputDecimals) \<Rightarrow>
               compileInstructions L C wallet pool side sourceMint destinationMint isBaseToQuote
                 (toRawAmount G amountIn inputDecimals) minAmountOut))"

text \<open>
  The direction block of \<^verbatim>\<open>calculateQuoteOnChain\<close> (main.go:1287-1318):
  \<^verbatim>\<open>inputDecimals\<close>, \<^verbatim>\<open>outputDecimals\<close> and \<^verbatim>\<open>isBaseToQuote\<close>; then the raw
  input amount and the raw output of the quote (main.go:1320-1330).
\<close>

definition quoteDirection :: "solana_lib \<Rightarrow> OnChainPool \<Rightarrow> string \<Rightarrow> nat \<times> nat \<times> bool" where
  "quoteDirection L pool side =
     (let isBaseSol = (BaseMint pool = WSOL_MINT \<or> BaseMint pool = SolMint L)
      in if side = ''buy''
         then (if isBaseSol then (SOL_DECIMALS, unat (QuoteDecimals pool), True)
               else (SOL_DECIMALS, unat (BaseDecimals pool), False))
         else (if isBaseSol then (unat (QuoteDecimals pool), SOL_DECIMALS, False)
               else (unat (BaseDecimals pool), SOL_DECIMALS, True)))"

definition quoteAmounts ::
  "solana_lib \<Rightarrow> go_runtime \<Rightarrow> OnChainPool \<Rightarrow> string \<Rightarrow> float64 \<Rightarrow> error + (u64 \<times> u64)" where
  "quoteAmounts L G pool side amount =
     (case quoteDirection L pool side of
        (inputDecimals, outputDecimals, isBaseToQuote) \<Rightarrow>
          let amountIn = toRawAmount G amount inputDecimals
          in case (if isBaseToQuote
                   then calculateSwapAmount (QuoteAmount pool) (BaseAmount pool) amountIn
                   else calculateSwapAmount (BaseAmount pool) (QuoteAmount pool) amountIn) of
               Inl e \<Rightarrow> Inl e
             | Inr amountOut \<Rightarrow> Inr (amountIn, amountOut))"


section \<open>Command line and prompts\<close>

text \<open>
  \<^verbatim>\<open>main\<close> (main.go:825) up to its call of \<^verbatim>\<open>calculateQuoteOnChain\<close>, as the
  sequence of calls it makes and how it goes on. \<open>findPoolsOnChain\<close> stands for the
  outcome of the discovery scan (main.go:980) on the current ledger, reduced to the
  address of the pool it returns (\<open>Inl\<close> when it returns an error, or a nil pool, on
  which \<^verbatim>\<open>main\<close> stops); \<open>walletLoads\<close> says whether \<^verbatim>\<open>loadWallet\<close>
  succeeds.
\<close>

record cli_args =
  arg_pool :: string
  arg_token :: string
  arg_amount :: float64
  arg_side :: string
  arg_execute :: bool

datatype call =
    FindPoolsOnChain string
  | CalculateQuoteOnChain string float64 string

datatype status = PrintedUsage | Fatal | Proceeds

definition main_quote ::
  "(string \<Rightarrow> error + string) \<Rightarrow> bool \<Rightarrow> cli_args \<Rightarrow> call list \<times> status" where
  "main_quote findPoolsOnChain walletLoads args =
     (if f_eq (arg_amount args) (Finite 0) \<or> arg_side args = [] then ([], PrintedUsage)
      else if arg_pool args = [] \<and> arg_token args = [] then ([], Fatal)
      else if arg_side args \<noteq> ''buy'' \<and> arg_side args \<noteq> ''sell'' then ([], Fatal)
      else if arg_execute args \<and> \<not> walletLoads then ([], Fatal)
      else if arg_token args \<noteq> []
      then (case findPoolsOnChain (arg_token args) of
              Inl e \<Rightarrow> ([FindPoolsOnChain (arg_token args)], Fatal)
            | Inr poolAddress \<Rightarrow>
                ([FindPoolsOnChain (arg_token args),
                  CalculateQuoteOnChain poolAddress (arg_amount args) (arg_side args)], Proceeds))
      else ([CalculateQuoteOnChain (arg_pool args) (arg_amount args) (arg_side args)], Proceeds))"

text \<open>
  \<^verbatim>\<open>strings.TrimSuffix\<close>, \<^verbatim>\<open>parseFloat\<close> (main.go:197) and
  \<^verbatim>\<open>getSlippageFromUser\<close> (main.go:167). The line read from standard input is
  \<open>None\<close> when \<^verbatim>\<open>scanner.Scan()\<close> is false.
\<close>

definition TrimSuffix :: "string \<Rightarrow> string \<Rightarrow> string" where
  "TrimSuffix s suffix =
     (if length suffix \<le> length s \<and> drop (length s - length suffix) s = suffix
      then take (length s - length suffix) s else s)"

definition parseFloat :: "go_runtime \<Rightarrow> string \<Rightarrow> float64 option" where
  "parseFloat G s = ParseFloat G (TrimSuffix (TrimSpace G s) ''%'')"

definition getSlippageFromUser :: "go_runtime \<Rightarrow> string option \<Rightarrow> error + float64" where
  "getSlippageFromUser G line =
     (case line of
        None \<Rightarrow> Inr (Finite (1 / 2))
      | Some text \<Rightarrow>
          let input = TrimSpace G text
          in if input = [] then Inr (Finite (1 / 2))
             else case parseFloat G input of
                    None \<Rightarrow> Inl InvalidSlippageValue
                  | Some slippage \<Rightarrow>
                      if f_less slippage (Finite 0) \<or> f_less (Finite 100) slippage
                      then Inl SlippageOutOfRange
                      else Inr slippage)"

text \<open>
  \<^verbatim>\<open>getSlippageFromUser\<close> of main\_working.go (line 49): \<open>text\<close> is what
  \<^verbatim>\<open>ReadString\<close> returned, its error ignored.
\<close>

definition getSlippageFromUser_working :: "go_runtime \<Rightarrow> string \<Rightarrow> error + float64" where
  "getSlippageFromUser_working G text =
     (let input = TrimSpace G text
      in if input = [] then Inr (Finite (1 / 2))
         else case ParseFloat G (TrimSuffix input ''%'') of
                None \<Rightarrow> Inl InvalidSlippageValue
              | Some slippage \<Rightarrow>
                  if f_less slippage (Finite 0) \<or> f_less (Finite 100) slippage
                  then Inl SlippageOutOfRange
                  else Inr slippage)"


section \<open>Reading the payload back\<close>

text \<open>
  Modelled from the spec: the repository encodes the swap payload and never decodes it
  (the on-chain program does), so the decoder follows the layout of the spec's
  SwapInstructionPayload: "opcode (1 byte, fixed value), amountIn (8-byte little-endian
  unsigned), minAmountOut (8-byte little-endian unsigned) -- exactly 17 bytes, no
  padding, no checksum". \<open>Uint64LE\<close> reads eight bytes, least significant first.
\<close>

definition Uint64LE :: "byte list \<Rightarrow> u64" where
  "Uint64LE b = ucast (b ! 0) OR push_bit 8 (ucast (b ! 1)) OR push_bit 16 (ucast (b ! 2))
     OR push_bit 24 (ucast (b ! 3)) OR push_bit 32 (ucast (b ! 4)) OR push_bit 40 (ucast (b ! 5))
     OR push_bit 48 (ucast (b ! 6)) OR push_bit 56 (ucast (b ! 7))"

definition decodeSwapData :: "byte list \<Rightarrow> (byte \<times> u64 \<times> u64) option" where
  "decodeSwapData payload =
     (if length payload = 17
      then Some (payload ! 0, Uint64LE (take 8 (drop 1 payload)), Uint64LE (take 8 (drop 9 payload)))
      else None)"

text \<open>
  Modelled from the spec: the Borsh encoder that \<^verbatim>\<open>CreateRaydiumSwapInstruction\<close>
  calls on its \<^verbatim>\<open>RaydiumSwapLayout\<close> is a library outside the repository. The bytes
  it gives for the three fields are those of the spec's SwapInstructionPayload: the
  opcode byte, then amountIn and minAmountOut as 8-byte little-endian unsigned integers,
  17 bytes with no padding.
\<close>

definition borshSwapLayout :: "byte \<Rightarrow> u64 \<Rightarrow> u64 \<Rightarrow> byte list" where
  "borshSwapLayout opcode amountIn minAmountOut =
     [opcode] @ PutUint64 amountIn @ PutUint64 minAmountOut"


definition infoKeys :: "RaydiumPoolInfo \<Rightarrow> string list" where
  \<comment> \<open>the base58 texts that \<^verbatim>\<open>CreateRaydiumSwapInstruction\<close> decodes\<close>
  "infoKeys info =
     [info_ID info, info_Authority info, info_OpenOrders info, info_TargetOrders info,
      info_BaseVault info, info_QuoteVault info, info_MarketProgramID info, info_MarketID info,
      info_MarketBids info, info_MarketAsks info, info_MarketEventQueue info,
      info_MarketBaseVault info, info_MarketQuoteVault info, info_MarketAuthority info,
      info_ProgramID info]"

section \<open>Sample collaborators\<close>

text \<open>
  Concrete collaborators on which the functions are run. The sample library accepts a
  derivation candidate for \<open>[m, [nonce]]\<close> exactly when the nonce is at least the first
  byte of \<open>m\<close>, so the first byte of a market key fixes its first valid nonce; its
  \<^verbatim>\<open>FindProgramAddress\<close> answers with bump 255. The sample runtime computes on the
  denoted values without rounding, trims ASCII blanks and parses the few numerals used
  below.
\<close>

definition sampleCreateProgramAddress :: "byte list list \<Rightarrow> PublicKey \<Rightarrow> PublicKey option" where
  "sampleCreateProgramAddress seeds programID =
     (case seeds of
        [m, [nonce]] \<Rightarrow> if m \<noteq> [] \<and> hd m \<le> nonce then Some (nonce # tl m) else None
      | _ \<Rightarrow> None)"

definition sampleFindProgramAddress ::
  "byte list list \<Rightarrow> PublicKey \<Rightarrow> (PublicKey \<times> byte) option" where
  "sampleFindProgramAddress seeds programID =
     (case seeds of
        [m] \<Rightarrow> Some (take 32 (255 # tl m @ replicate 32 0), 255)
      | _ \<Rightarrow> None)"

definition sampleLib :: solana_lib where
  "sampleLib = \<lparr>SolMint = butlast WSOL_MINT @ [0],
     SystemProgramID = zeroPublicKey,
     TokenProgramID = replicate 32 6,
     CreateProgramAddress = sampleCreateProgramAddress,
     FindProgramAddress = sampleFindProgramAddress,
     FindAssociatedTokenAddress = (\<lambda>wallet mint. Some (map (\<lambda>b. b + 1) mint)),
     PublicKeyFromBase58 = (\<lambda>s. if length s = 32 then Some (bytes_of s) else None),
     BorshEncode = (\<lambda>opcode a b. Some ([opcode] @ PutUint64 a @ PutUint64 b))\<rparr>"

fun exact_mul :: "float64 \<Rightarrow> float64 \<Rightarrow> float64" where
  "exact_mul (Finite a) (Finite b) = Finite (a * b)"
| "exact_mul _ _ = NaN"

fun exact_to_uint64 :: "float64 \<Rightarrow> u64" where
  "exact_to_uint64 (Finite a) = word_of_int \<lfloor>a\<rfloor>"
| "exact_to_uint64 _ = 0"

definition asciiBlank :: "char \<Rightarrow> bool" where
  "asciiBlank c \<longleftrightarrow> c \<in> set [CHR '' '', CHR 0x09, CHR 0x0A, CHR 0x0B, CHR 0x0C, CHR 0x0D]"

definition sampleTrimSpace :: "string \<Rightarrow> string" where
  "sampleTrimSpace s = rev (dropWhile asciiBlank (rev (dropWhile asciiBlank s)))"

definition sampleParseFloat :: "string \<Rightarrow> float64 option" where
  "sampleParseFloat s =
     (if s = ''NaN'' then Some NaN
      else if s = ''2.5'' then Some (Finite (5 / 2))
      else if s = ''100'' then Some (Finite 100)
      else if s = ''101'' then Some (Finite 101)
      else if s = ''-1'' then Some (Finite (- 1))
      else None)"

definition sampleParseUint :: "string \<Rightarrow> u64 \<times> bool" where
  "sampleParseUint s =
     (if s = ''1000'' then (1000, False)
      else if s = ''2000'' then (2000, False)
      else (0, True))"

definition sampleRuntime :: go_runtime where
  "sampleRuntime = \<lparr>TrimSpace = sampleTrimSpace,
     ParseFloat = sampleParseFloat,
     ParseUint = sampleParseUint,
     fmul = exact_mul,
     Pow10 = (\<lambda>d. Finite (10 ^ d)),
     float_of_int = (\<lambda>i. Finite (of_int i)),
     to_uint64 = exact_to_uint64\<rparr>"

text \<open>
  A wallet and a token mint; a ledger on which no account exists except the vaults'
  balances; a pool selling the token for wrapped SOL.
\<close>

definition sampleWallet :: PublicKey where
  "sampleWallet = replicate 32 1"

definition sampleToken :: PublicKey where
  "sampleToken = replicate 32 2"

definition sampleClient :: rpc_client where
  "sampleClient = \<lparr>GetAccountInfo = (\<lambda>k. RpcError),
     GetTokenAccountBalance = (\<lambda>k. if k = zeroPublicKey then Some ''1000'' else Some ''2000'')\<rparr>"

definition samplePool :: OnChainPool where
  "samplePool = zeroPool\<lparr>BaseMint := sampleToken, QuoteMint := WSOL_MINT,
     QuoteVault := replicate 32 5, BaseDecimals := 6, QuoteDecimals := 9\<rparr>"

definition sampleData :: "byte list" where
  "sampleData = map of_nat [0..<752]"


definition fullClient :: rpc_client where
  "fullClient = \<lparr>GetAccountInfo = (\<lambda>k. AccountData sampleData),
     GetTokenAccountBalance = (\<lambda>k. Some ''1000'')\<rparr>"

definition sampleAddress :: string where
  "sampleAddress = replicate 32 (CHR ''A'')"


definition sampleInfo :: RaydiumPoolInfo where
  "sampleInfo = \<lparr>info_ID = sampleAddress, info_BaseMint = sampleAddress,
     info_QuoteMint = sampleAddress, info_BaseDecimals = 9, info_QuoteDecimals = 6,
     info_ProgramID = sampleAddress, info_Authority = sampleAddress,
     info_OpenOrders = sampleAddress, info_TargetOrders = sampleAddress,
     info_BaseVault = sampleAddress, info_QuoteVault = sampleAddress,
     info_MarketProgramID = sampleAddress, info_MarketID = sampleAddress,
     info_MarketAuthority = sampleAddress, info_MarketBaseVault = sampleAddress,
     info_MarketQuoteVault = sampleAddress, info_MarketBids = sampleAddress,
     info_MarketAsks = sampleAddress, info_MarketEventQueue = sampleAddress\<rparr>"
















text \<open>
  Vocabulary for the instruction sequence: whether an account exists on the ledger,
  whether an instruction belongs to the wrap step, and the sequence a sell compiles to.
\<close>

definition accountExists :: "rpc_client \<Rightarrow> PublicKey \<Rightarrow> bool" where
  "accountExists C k = (case GetAccountInfo C k of AccountData d \<Rightarrow> True | _ \<Rightarrow> False)"

fun isWrap :: "ix \<Rightarrow> bool" where
  "isWrap (Transfer lamports src dst) = True"
| "isWrap (SyncNative account) = True"
| "isWrap _ = False"

definition sellSequence ::
  "rpc_client \<Rightarrow> PublicKey \<Rightarrow> PublicKey \<Rightarrow> PublicKey \<Rightarrow> PublicKey \<Rightarrow> PublicKey \<Rightarrow> Instruction
   \<Rightarrow> ix list" where
  "sellSequence C wallet sourceMint sourceATA destinationMint destinationATA swapIx =
     (if accountExists C sourceATA then [] else [CreateATA wallet wallet sourceMint])
     @ (if accountExists C destinationATA then [] else [CreateATA wallet wallet destinationMint])
     @ [Swap swapIx]
     @ (if destinationMint = WSOL_MINT then [CloseAccount destinationATA wallet wallet] else [])"

text \<open>
  A seller who holds the token account and has no wrapped-SOL account yet, and the swap
  instruction built for that seller.
\<close>

definition sampleSourceATA :: PublicKey where
  "sampleSourceATA = replicate 32 3"

definition sampleDestATA :: PublicKey where
  "sampleDestATA = map (\<lambda>b. b + 1) WSOL_MINT"

definition sellerClient :: rpc_client where
  "sellerClient = \<lparr>GetAccountInfo = (\<lambda>k. if k = sampleSourceATA then AccountData [] else RpcError),
     GetTokenAccountBalance = (\<lambda>k. Some ''1000'')\<rparr>"

definition sampleSwapIx :: Instruction where
  "sampleSwapIx = \<lparr>ProgramID = RAYDIUM_AMM_V4,
     Accounts =
       [meta (replicate 32 6) False False, meta zeroPublicKey False True,
        meta zeroPublicKey False False, meta zeroPublicKey False True,
        meta zeroPublicKey False True, meta zeroPublicKey False True,
        meta (replicate 32 5) False True, meta zeroPublicKey False False,
        meta zeroPublicKey False True, meta zeroPublicKey False True,
        meta zeroPublicKey False True, meta zeroPublicKey False True,
        meta zeroPublicKey False True, meta zeroPublicKey False True,
        meta zeroPublicKey False False, meta sampleSourceATA False True,
        meta sampleDestATA False True, meta sampleWallet True False],
     Data = [9, 5, 0, 0, 0, 0, 0, 0, 0, 1, 0, 0, 0, 0, 0, 0, 0]\<rparr>"


section \<open>Properties of the constant-product formula\<close>

lemma quot_le_nat:
  fixes r a i :: nat
  assumes "0 < i + a"
  shows "r * a div (i + a) \<le> r"
proof -
  have "r * a \<le> r * (i + a)" by simp
  then have "r * a div (i + a) \<le> r * (i + a) div (i + a)" by (rule div_le_mono)
  then show ?thesis using assms by (auto split: if_splits)
qed

lemma quot_less_nat:
  fixes r a i :: nat
  assumes "0 < r" "0 < i"
  shows "r * a div (i + a) < r"
proof -
  have "r * a < r * (i + a)" using assms by simp
  then show ?thesis using assms by (simp add: div_less_iff_less_mult)
qed

lemma quot_mono_nat:
  fixes r a a' i :: nat
  assumes "a \<le> a'" "0 < i + a"
  shows "r * a div (i + a) \<le> r * a' div (i + a')"
proof -
  define q where "q = r * a div (i + a)"
  have q_le: "q \<le> r" unfolding q_def using assms(2) by (rule quot_le_nat)
  have low: "q * (i + a) \<le> r * a" unfolding q_def by (rule div_times_less_eq_dividend)
  have "q * (a' - a) \<le> r * (a' - a)" using q_le by (rule mult_le_mono1)
  with low have "q * (i + a) + q * (a' - a) \<le> r * a + r * (a' - a)" by (rule add_le_mono)
  then have "q * (i + a') \<le> r * a'" using assms(1)
    by (simp add: distrib_left[symmetric] add.assoc)
  moreover have "0 < i + a'" using assms by arith
  ultimately show ?thesis unfolding q_def[symmetric] by (simp add: less_eq_div_iff_mult_less_eq)
qed

lemma calculateSwapAmount_unat:
  assumes "reserveIn \<noteq> 0 \<or> amountIn \<noteq> 0"
  shows "\<exists>out. calculateSwapAmount reserveOut reserveIn amountIn = Inr out \<and>
     unat out = unat reserveOut * unat amountIn div (unat reserveIn + unat amountIn)"
proof -
  let ?q = "unat reserveOut * unat amountIn div (unat reserveIn + unat amountIn)"
  have pos: "0 < unat reserveIn + unat amountIn" using assms by (auto simp: unat_gt_0)
  have "?q \<le> unat reserveOut" using pos by (rule quot_le_nat)
  also have "\<dots> < 2 ^ 64" using unsigned_less[of reserveOut] by simp
  finally have small: "?q < 2 ^ 64" .
  have eq: "uint reserveOut * uint amountIn div (uint reserveIn + uint amountIn) = int ?q"
    by (simp add: zdiv_int flip: uint_nat)
  have "uint reserveIn + uint amountIn = int (unat reserveIn + unat amountIn)"
    by (simp only: uint_nat of_nat_add)
  then have den: "uint reserveIn + uint amountIn \<noteq> 0" using pos by linarith
  have "calculateSwapAmount reserveOut reserveIn amountIn = Inr (word_of_nat ?q)"
    unfolding calculateSwapAmount_def Let_def using den eq by simp
  moreover have "unat (word_of_nat ?q :: u64) = ?q"
    using small by (intro of_nat_inverse) simp_all
  ultimately show ?thesis by blast
qed

text \<open>
  Claim C1, as amended. Whenever the denominator \<open>reserveIn + amountIn\<close> is positive,
  the raw swap output is the floor of \<open>reserveOut * amountIn / (reserveIn + amountIn)\<close>
  computed on unbounded integers; it never exceeds \<open>reserveOut\<close>, it is strictly below
  \<open>reserveOut\<close> when both reserves are positive, and it is non-decreasing in
  \<open>amountIn\<close>.
\<close>

theorem calculateSwapAmount_constant_product:
  assumes "reserveIn \<noteq> 0 \<or> amountIn \<noteq> 0"
  shows "\<exists>out. calculateSwapAmount reserveOut reserveIn amountIn = Inr out
      \<and> uint out = uint reserveOut * uint amountIn div (uint reserveIn + uint amountIn)
      \<and> out \<le> reserveOut
      \<and> (reserveOut \<noteq> 0 \<and> reserveIn \<noteq> 0 \<longrightarrow> out < reserveOut)
      \<and> (\<forall>amountIn'. amountIn \<le> amountIn' \<longrightarrow>
            (\<exists>out'. calculateSwapAmount reserveOut reserveIn amountIn' = Inr out' \<and> out \<le> out'))"
proof -
  obtain out where run: "calculateSwapAmount reserveOut reserveIn amountIn = Inr out"
    and val: "unat out = unat reserveOut * unat amountIn div (unat reserveIn + unat amountIn)"
    using calculateSwapAmount_unat[OF assms] by blast
  have pos: "0 < unat reserveIn + unat amountIn" using assms by (auto simp: unat_gt_0)
  have eq: "uint reserveOut * uint amountIn div (uint reserveIn + uint amountIn)
      = int (unat reserveOut * unat amountIn div (unat reserveIn + unat amountIn))"
    by (simp add: zdiv_int flip: uint_nat)
  have floor: "uint out = uint reserveOut * uint amountIn div (uint reserveIn + uint amountIn)"
    unfolding eq by (simp only: uint_nat val)
  have le: "out \<le> reserveOut"
    unfolding word_le_nat_alt val using pos by (rule quot_le_nat)
  have strict: "out < reserveOut" if "reserveOut \<noteq> 0 \<and> reserveIn \<noteq> 0"
    unfolding word_less_nat_alt val using that by (intro quot_less_nat) (simp_all add: unat_gt_0)
  have mono: "\<exists>out'. calculateSwapAmount reserveOut reserveIn amountIn' = Inr out' \<and> out \<le> out'"
    if later: "amountIn \<le> amountIn'" for amountIn'
  proof -
    have le_nat: "unat amountIn \<le> unat amountIn'" using later by (simp add: word_le_nat_alt)
    have "reserveIn \<noteq> 0 \<or> amountIn' \<noteq> 0" using assms later by auto
    then obtain out' where run': "calculateSwapAmount reserveOut reserveIn amountIn' = Inr out'"
      and val': "unat out' = unat reserveOut * unat amountIn' div (unat reserveIn + unat amountIn')"
      using calculateSwapAmount_unat by blast
    have "out \<le> out'" unfolding word_le_nat_alt val val' using le_nat pos by (rule quot_mono_nat)
    with run' show ?thesis by blast
  qed
  show ?thesis using run floor le strict mono by blast
qed

theorem calculateSwapAmount_constant_product_witness:
  "\<exists>out. calculateSwapAmount 98765432100000 123456789000000000 1000000 = Inr out
      \<and> out = 800 \<and> out < 98765432100000
      \<and> (\<exists>out'. calculateSwapAmount 98765432100000 123456789000000000 2000000 = Inr out'
            \<and> out \<le> out')"
proof -
  have nz: "(123456789000000000 :: u64) \<noteq> 0 \<or> (1000000 :: u64) \<noteq> 0" by simp
  have later: "(1000000 :: u64) \<le> 2000000" by simp
  have val: "calculateSwapAmount 98765432100000 123456789000000000 1000000 = Inr 800"
    by (simp add: calculateSwapAmount_def)
  show ?thesis
    using calculateSwapAmount_constant_product[OF nz, of 98765432100000] later val by auto
qed

theorem calculateSwapAmount_reaches_reserve:
  "calculateSwapAmount 5 0 1 = Inr 5 \<and> \<not> (5 :: u64) < 5
   \<and> calculateSwapAmount 5 0 0 = Inl DivisionByZero"
  by (simp add: calculateSwapAmount_def)

section \<open>Properties of the account decoder\<close>

lemma slice_length: "hi \<le> length data \<Longrightarrow> length (slice data lo hi) = hi - lo"
  by (simp add: slice_def)

lemma slice_nth: "hi \<le> length data \<Longrightarrow> i < hi - lo \<Longrightarrow> slice data lo hi ! i = data ! (lo + i)"
  by (simp add: slice_def)

lemma PublicKeyFromBytes_slice:
  "lo + 32 \<le> length data \<Longrightarrow> PublicKeyFromBytes (slice data lo (lo + 32)) = slice data lo (lo + 32)"
  by (simp add: PublicKeyFromBytes_def slice_def)

lemma parsePoolAccount_short:
  "length data < 752 \<Longrightarrow> parsePoolAccount L address data = Inl (InvalidPoolDataSize (length data))"
  by (simp add: parsePoolAccount_def)

lemma parsePoolAccount_long:
  assumes "752 \<le> length data"
    and "FindProgramAddress L [bytes_of AUTHORITY_AMM_SEED] RAYDIUM_AMM_V4 = Some (authority, bump)"
  shows "parsePoolAccount L address data =
    Inr (zeroPool\<lparr>Address := address, Nonce := data ! 8,
          BaseVault := slice data 336 368, QuoteVault := slice data 368 400,
          BaseMint := slice data 400 432, QuoteMint := slice data 432 464,
          OpenOrders := slice data 464 496, TargetOrders := slice data 592 624,
          Market := slice data 656 688, MarketProgram := slice data 688 720,
          BaseAmount := 0, QuoteAmount := 0, Authority := authority\<rparr>)"
proof -
  have key: "PublicKeyFromBytes (slice data lo (lo + 32)) = slice data lo (lo + 32)"
    if "lo + 32 \<le> 752" for lo
    using that assms(1) by (intro PublicKeyFromBytes_slice) simp
  have "PublicKeyFromBytes (slice data 336 368) = slice data 336 368"
    "PublicKeyFromBytes (slice data 368 400) = slice data 368 400"
    "PublicKeyFromBytes (slice data 400 432) = slice data 400 432"
    "PublicKeyFromBytes (slice data 432 464) = slice data 432 464"
    "PublicKeyFromBytes (slice data 464 496) = slice data 464 496"
    "PublicKeyFromBytes (slice data 592 624) = slice data 592 624"
    "PublicKeyFromBytes (slice data 656 688) = slice data 656 688"
    "PublicKeyFromBytes (slice data 688 720) = slice data 688 720"
    using key[of 336] key[of 368] key[of 400] key[of 432] key[of 464] key[of 592]
      key[of 656] key[of 688] by simp_all
  then show ?thesis using assms by (simp add: parsePoolAccount_def Let_def)
qed

lemma parsePoolAccount_Inr:
  assumes "parsePoolAccount L address data = Inr pool"
  shows "752 \<le> length data
    \<and> (\<exists>bump. FindProgramAddress L [bytes_of AUTHORITY_AMM_SEED] RAYDIUM_AMM_V4
          = Some (Authority pool, bump))
    \<and> BaseAmount pool = 0 \<and> QuoteAmount pool = 0"
proof -
  have long: "752 \<le> length data"
    using assms by (cases "length data < 752") (simp_all add: parsePoolAccount_def)
  obtain authority bump where
    derive: "FindProgramAddress L [bytes_of AUTHORITY_AMM_SEED] RAYDIUM_AMM_V4 = Some (authority, bump)"
    using assms long
    by (cases "FindProgramAddress L [bytes_of AUTHORITY_AMM_SEED] RAYDIUM_AMM_V4")
       (auto simp: parsePoolAccount_def Let_def)
  show ?thesis
    using assms long derive unfolding parsePoolAccount_long[OF long derive] by auto
qed

text \<open>
  Claim C2. Given that the library derives the pool authority (a derivation from two
  constants, the same for every input), a blob of at least 752 bytes decodes, and the
  nonce and the eight keys are the bytes at the documented offsets; a shorter blob fails
  with the size error.
\<close>

theorem parsePoolAccount_fixed_offsets:
  assumes "FindProgramAddress L [bytes_of AUTHORITY_AMM_SEED] RAYDIUM_AMM_V4 = Some (authority, bump)"
  shows "(752 \<le> length data \<longrightarrow>
           (\<exists>pool. parsePoolAccount L address data = Inr pool
              \<and> Nonce pool = data ! 8
              \<and> BaseVault pool = take 32 (drop 336 data)
              \<and> QuoteVault pool = take 32 (drop 368 data)
              \<and> BaseMint pool = take 32 (drop 400 data)
              \<and> QuoteMint pool = take 32 (drop 432 data)
              \<and> OpenOrders pool = take 32 (drop 464 data)
              \<and> TargetOrders pool = take 32 (drop 592 data)
              \<and> Market pool = take 32 (drop 656 data)
              \<and> MarketProgram pool = take 32 (drop 688 data)))
       \<and> (length data < 752 \<longrightarrow>
            parsePoolAccount L address data = Inl (InvalidPoolDataSize (length data)))"
proof (intro conjI impI)
  assume long: "752 \<le> length data"
  show "\<exists>pool. parsePoolAccount L address data = Inr pool
              \<and> Nonce pool = data ! 8
              \<and> BaseVault pool = take 32 (drop 336 data)
              \<and> QuoteVault pool = take 32 (drop 368 data)
              \<and> BaseMint pool = take 32 (drop 400 data)
              \<and> QuoteMint pool = take 32 (drop 432 data)
              \<and> OpenOrders pool = take 32 (drop 464 data)
              \<and> TargetOrders pool = take 32 (drop 592 data)
              \<and> Market pool = take 32 (drop 656 data)
              \<and> MarketProgram pool = take 32 (drop 688 data)"
    unfolding parsePoolAccount_long[OF long assms] by (simp add: slice_def)
next
  assume "length data < 752"
  then show "parsePoolAccount L address data = Inl (InvalidPoolDataSize (length data))"
    by (rule parsePoolAccount_short)
qed

lemma sampleLib_derives_authority:
  "FindProgramAddress sampleLib [bytes_of AUTHORITY_AMM_SEED] RAYDIUM_AMM_V4
     = Some (take 32 (255 # tl (bytes_of AUTHORITY_AMM_SEED) @ replicate 32 0), 255)"
  by (simp add: sampleLib_def sampleFindProgramAddress_def)

theorem parsePoolAccount_fixed_offsets_witness:
  "(\<exists>pool. parsePoolAccount sampleLib sampleWallet sampleData = Inr pool
      \<and> Nonce pool = 8
      \<and> BaseVault pool = map of_nat [336..<368]
      \<and> MarketProgram pool = map of_nat [688..<720])
   \<and> parsePoolAccount sampleLib sampleWallet [1, 2, 3] = Inl (InvalidPoolDataSize 3)"
proof -
  have long: "752 \<le> length sampleData" by (simp add: sampleData_def)
  have short: "length [1, 2, 3 :: byte] < 752" by simp
  have n8: "sampleData ! 8 = 8" by (simp add: sampleData_def)
  have bv: "take 32 (drop 336 sampleData) = map of_nat [336..<368]"
    by (simp add: sampleData_def take_map drop_map)
  have mp: "take 32 (drop 688 sampleData) = map of_nat [688..<720]"
    by (simp add: sampleData_def take_map drop_map)
  show ?thesis
    using parsePoolAccount_fixed_offsets[OF sampleLib_derives_authority, of sampleData sampleWallet]
      parsePoolAccount_fixed_offsets[OF sampleLib_derives_authority, of "[1, 2, 3]" sampleWallet]
      long short n8 bv mp
    by auto
qed

section \<open>Where the reserves come from\<close>

lemma fetchVaultBalances_ok:
  assumes "fetchVaultBalances G C pool = (None, pool')"
  shows "\<exists>b q. GetTokenAccountBalance C (BaseVault pool) = Some b
           \<and> GetTokenAccountBalance C (QuoteVault pool) = Some q
           \<and> pool' = pool\<lparr>BaseAmount := fst (ParseUint G b), QuoteAmount := fst (ParseUint G q)\<rparr>"
  using assms unfolding fetchVaultBalances_def
  by (auto simp: Let_def split: option.splits prod.splits if_splits)

lemma marketFallback_keeps:
  "BaseAmount (marketFallback L pool) = BaseAmount pool"
  "QuoteAmount (marketFallback L pool) = QuoteAmount pool"
  "BaseVault (marketFallback L pool) = BaseVault pool"
  "QuoteVault (marketFallback L pool) = QuoteVault pool"
  by (simp_all add: marketFallback_def)

lemma fetchMarketData_keeps:
  assumes "fetchMarketData L C pool = Inr pool'"
  shows "BaseAmount pool' = BaseAmount pool \<and> QuoteAmount pool' = QuoteAmount pool
       \<and> BaseVault pool' = BaseVault pool \<and> QuoteVault pool' = QuoteVault pool"
  using assms unfolding fetchMarketData_def
  by (auto simp: Let_def marketFallback_keeps split: if_splits account_info.splits)

lemma loadPool_reserves:
  assumes "loadPool L G C poolAddress = Inr loaded"
  shows "\<exists>b q. GetTokenAccountBalance C (BaseVault loaded) = Some b
           \<and> GetTokenAccountBalance C (QuoteVault loaded) = Some q
           \<and> BaseAmount loaded = fst (ParseUint G b)
           \<and> QuoteAmount loaded = fst (ParseUint G q)"
proof -
  from assms obtain pool0 pool1 where
    fetched: "fetchVaultBalances G C pool0 = (None, pool1)" and
    market: "(\<exists>e. fetchMarketData L C pool1 = Inl e \<and> loaded = marketFallback L pool1)
           \<or> fetchMarketData L C pool1 = Inr loaded"
    unfolding loadPool_def
    by (auto split: option.splits account_info.splits sum.splits prod.splits if_splits)
  from fetchVaultBalances_ok[OF fetched] obtain b q where
    bal: "GetTokenAccountBalance C (BaseVault pool0) = Some b"
         "GetTokenAccountBalance C (QuoteVault pool0) = Some q" and
    p1: "pool1 = pool0\<lparr>BaseAmount := fst (ParseUint G b), QuoteAmount := fst (ParseUint G q)\<rparr>"
    by blast
  have same: "BaseAmount loaded = BaseAmount pool1 \<and> QuoteAmount loaded = QuoteAmount pool1
       \<and> BaseVault loaded = BaseVault pool1 \<and> QuoteVault loaded = QuoteVault pool1"
    using market fetchMarketData_keeps[of L C pool1 loaded] by (auto simp: marketFallback_keeps)
  show ?thesis using bal p1 same by auto
qed

text \<open>
  Claim C9. A decoded pool has both reserves zero whatever the blob holds; a successful
  balance fetch sets them to the parsed balances of the two vaults; decoding the market
  leaves them alone; and the pool that \<^verbatim>\<open>executeSwap\<close> works on carries exactly the
  balances fetched for its vaults.
\<close>

theorem reserves_come_from_vault_balances:
  "(parsePoolAccount L address data = Inr pool \<longrightarrow> BaseAmount pool = 0 \<and> QuoteAmount pool = 0)
   \<and> (fetchVaultBalances G C pool = (None, pool') \<longrightarrow>
        (\<exists>b q. GetTokenAccountBalance C (BaseVault pool) = Some b
           \<and> GetTokenAccountBalance C (QuoteVault pool) = Some q
           \<and> BaseAmount pool' = fst (ParseUint G b)
           \<and> QuoteAmount pool' = fst (ParseUint G q)))
   \<and> (fetchMarketData L C pool = Inr pool'' \<longrightarrow>
        BaseAmount pool'' = BaseAmount pool \<and> QuoteAmount pool'' = QuoteAmount pool)
   \<and> (loadPool L G C poolAddress = Inr loaded \<longrightarrow>
        (\<exists>b q. GetTokenAccountBalance C (BaseVault loaded) = Some b
           \<and> GetTokenAccountBalance C (QuoteVault loaded) = Some q
           \<and> BaseAmount loaded = fst (ParseUint G b)
           \<and> QuoteAmount loaded = fst (ParseUint G q)))"
proof (intro conjI impI)
  assume "parsePoolAccount L address data = Inr pool"
  then show "BaseAmount pool = 0" "QuoteAmount pool = 0"
    using parsePoolAccount_Inr by blast+
next
  assume "fetchVaultBalances G C pool = (None, pool')"
  from fetchVaultBalances_ok[OF this]
  show "\<exists>b q. GetTokenAccountBalance C (BaseVault pool) = Some b
           \<and> GetTokenAccountBalance C (QuoteVault pool) = Some q
           \<and> BaseAmount pool' = fst (ParseUint G b)
           \<and> QuoteAmount pool' = fst (ParseUint G q)"
    by auto
next
  assume "fetchMarketData L C pool = Inr pool''"
  then show "BaseAmount pool'' = BaseAmount pool" "QuoteAmount pool'' = QuoteAmount pool"
    using fetchMarketData_keeps by blast+
next
  assume "loadPool L G C poolAddress = Inr loaded"
  then show "\<exists>b q. GetTokenAccountBalance C (BaseVault loaded) = Some b
           \<and> GetTokenAccountBalance C (QuoteVault loaded) = Some q
           \<and> BaseAmount loaded = fst (ParseUint G b)
           \<and> QuoteAmount loaded = fst (ParseUint G q)"
    by (rule loadPool_reserves)
qed

lemma fullClient_decimals: "\<exists>d. getTokenDecimals sampleLib fullClient mint = Inr d"
  by (simp add: getTokenDecimals_def fullClient_def sampleData_def)

lemma fullClient_balances:
  "fetchVaultBalances sampleRuntime fullClient pool
     = (None, pool\<lparr>BaseAmount := 1000, QuoteAmount := 1000\<rparr>)"
  by (simp add: fetchVaultBalances_def fullClient_def sampleRuntime_def sampleParseUint_def)

lemma fullClient_market: "\<exists>pool'. fetchMarketData sampleLib fullClient pool = Inr pool'"
  by (simp add: fetchMarketData_def fullClient_def sampleData_def Let_def)

lemma fullClient_loadPool: "\<exists>loaded. loadPool sampleLib sampleRuntime fullClient sampleAddress = Inr loaded"
proof -
  let ?key = "bytes_of sampleAddress"
  have key: "PublicKeyFromBase58 sampleLib sampleAddress = Some ?key"
    by (simp add: sampleLib_def sampleAddress_def)
  have info: "GetAccountInfo fullClient ?key = AccountData sampleData"
    by (simp add: fullClient_def)
  have long: "752 \<le> length sampleData" by (simp add: sampleData_def)
  obtain pool where parsed: "parsePoolAccount sampleLib ?key sampleData = Inr pool"
    using parsePoolAccount_long[OF long sampleLib_derives_authority] by blast
  obtain bd where bd: "getTokenDecimals sampleLib fullClient (BaseMint pool) = Inr bd"
    using fullClient_decimals by blast
  obtain qd where qd: "getTokenDecimals sampleLib fullClient (QuoteMint pool) = Inr qd"
    using fullClient_decimals by blast
  obtain pool' where market:
    "fetchMarketData sampleLib fullClient
       (pool\<lparr>BaseDecimals := bd, QuoteDecimals := qd, BaseAmount := 1000, QuoteAmount := 1000\<rparr>)
     = Inr pool'"
    using fullClient_market by blast
  have "loadPool sampleLib sampleRuntime fullClient sampleAddress = Inr pool'"
    unfolding loadPool_def by (simp add: key info parsed bd qd fullClient_balances market)
  then show ?thesis by blast
qed

theorem reserves_come_from_vault_balances_witness:
  "(\<exists>pool. parsePoolAccount sampleLib sampleWallet sampleData = Inr pool
      \<and> BaseAmount pool = 0 \<and> QuoteAmount pool = 0)
   \<and> (\<exists>pool'. fetchVaultBalances sampleRuntime sampleClient samplePool = (None, pool')
      \<and> BaseAmount pool' = 1000 \<and> QuoteAmount pool' = 2000)
   \<and> (\<exists>pool''. fetchMarketData sampleLib sampleClient samplePool = Inr pool''
      \<and> BaseAmount pool'' = BaseAmount samplePool)
   \<and> (\<exists>loaded. loadPool sampleLib sampleRuntime fullClient sampleAddress = Inr loaded
      \<and> BaseAmount loaded = 1000 \<and> QuoteAmount loaded = 1000)"
proof -
  have long: "752 \<le> length sampleData" by (simp add: sampleData_def)
  obtain pool where parsed: "parsePoolAccount sampleLib sampleWallet sampleData = Inr pool"
    using parsePoolAccount_long[OF long sampleLib_derives_authority] by blast
  obtain pool' where fetched: "fetchVaultBalances sampleRuntime sampleClient samplePool = (None, pool')"
    by (simp add: fetchVaultBalances_def sampleClient_def sampleRuntime_def sampleParseUint_def
        samplePool_def zeroPool_def zeroPublicKey_def)
  have vaults: "GetTokenAccountBalance sampleClient (BaseVault samplePool) = Some ''1000''"
    "GetTokenAccountBalance sampleClient (QuoteVault samplePool) = Some ''2000''"
    by (simp_all add: sampleClient_def samplePool_def zeroPool_def zeroPublicKey_def)
  have parse: "fst (ParseUint sampleRuntime ''1000'') = 1000" "fst (ParseUint sampleRuntime ''2000'') = 2000"
    by (simp_all add: sampleRuntime_def sampleParseUint_def)
  obtain pool'' where market: "fetchMarketData sampleLib sampleClient samplePool = Inr pool''"
    by (simp add: fetchMarketData_def samplePool_def zeroPool_def IsZero_def)
  obtain loaded where loaded: "loadPool sampleLib sampleRuntime fullClient sampleAddress = Inr loaded"
    using fullClient_loadPool by blast
  have full: "GetTokenAccountBalance fullClient k = Some ''1000''" for k
    by (simp add: fullClient_def)
  note main = reserves_come_from_vault_balances
  have 1: "BaseAmount pool = 0 \<and> QuoteAmount pool = 0"
    using main[where L=sampleLib and address=sampleWallet and data=sampleData and pool=pool] parsed by blast
  have 2: "BaseAmount pool' = 1000 \<and> QuoteAmount pool' = 2000"
    using main[where G=sampleRuntime and C=sampleClient and pool=samplePool and pool'=pool'] fetched vaults parse by auto
  have 3: "BaseAmount pool'' = BaseAmount samplePool"
    using main[where L=sampleLib and C=sampleClient and pool=samplePool and pool''=pool''] market by blast
  have 4: "BaseAmount loaded = 1000 \<and> QuoteAmount loaded = 1000"
    using main[where L=sampleLib and G=sampleRuntime and C=fullClient and poolAddress=sampleAddress and loaded=loaded] loaded full parse
    by auto
  show ?thesis using parsed fetched market loaded 1 2 3 4 by blast
qed

section \<open>Properties of the swap instruction\<close>

lemma Uint64LE_PutUint64: "Uint64LE (PutUint64 v) = v"
proof (rule bit_word_eqI)
  fix n
  assume "n < LENGTH(64)"
  then have "n < 64" by simp
  then consider "n < 8" | "8 \<le> n" "n < 16" | "16 \<le> n" "n < 24" | "24 \<le> n" "n < 32"
    | "32 \<le> n" "n < 40" | "40 \<le> n" "n < 48" | "48 \<le> n" "n < 56" | "56 \<le> n" "n < 64"
    by linarith
  then show "bit (Uint64LE (PutUint64 v)) n \<longleftrightarrow> bit v n"
    by cases (simp_all add: Uint64LE_def PutUint64_def bit_simps cong: conj_cong, arith+)
qed

lemma length_PutUint64: "length (PutUint64 v) = 8"
  by (simp add: PutUint64_def)

lemma PutUint64_nth: "i < 8 \<Longrightarrow> PutUint64 v ! i = ucast (drop_bit (8 * i) v)"
proof -
  assume "i < 8"
  then have "i \<in> set [0, 1, 2, 3, 4, 5, 6, 7]" by auto
  moreover have "\<forall>k \<in> set [0, 1, 2, 3, 4, 5, 6, 7]. PutUint64 v ! k = ucast (drop_bit (8 * k) v)"
    by (simp add: PutUint64_def)
  ultimately show ?thesis by blast
qed

lemma createSwapInstruction_Inr:
  assumes "createSwapInstruction L pool userSource userDestination userOwner amountIn
             minAmountOut isBaseToQuote = Inr swapIx"
  shows "\<exists>signer. marketVaultSigner L pool = Inr signer
     \<and> swapIx = \<lparr>ProgramID = RAYDIUM_AMM_V4,
          Accounts =
            [meta (TokenProgramID L) False False, meta (Address pool) False True,
             meta (Authority pool) False False, meta (OpenOrders pool) False True,
             meta (TargetOrders pool) False True, meta (BaseVault pool) False True,
             meta (QuoteVault pool) False True, meta (MarketProgram pool) False False,
             meta (Market pool) False True, meta (MarketBids pool) False True,
             meta (MarketAsks pool) False True, meta (MarketEventQueue pool) False True,
             meta (MarketBaseVault pool) False True, meta (MarketQuoteVault pool) False True,
             meta signer False False, meta userSource False True,
             meta userDestination False True, meta userOwner True False],
          Data = encodeSwapData amountIn minAmountOut\<rparr>"
  using assms unfolding createSwapInstruction_def
  by (cases "marketVaultSigner L pool") (auto simp: Let_def)

lemma CreateRaydiumSwapInstruction_Inr:
  assumes "CreateRaydiumSwapInstruction L info userSource userDestination userOwner amountIn
             minAmountOut = Inr apiIx"
  shows "\<exists>poolPubkey authority openOrders targetOrders baseVault quoteVault marketProgram market
      marketBids marketAsks marketEventQueue marketBaseVault marketQuoteVault marketAuthority
      programID buf.
      PublicKeyFromBase58 L (info_ID info) = Some poolPubkey
    \<and> PublicKeyFromBase58 L (info_Authority info) = Some authority
    \<and> PublicKeyFromBase58 L (info_OpenOrders info) = Some openOrders
    \<and> PublicKeyFromBase58 L (info_TargetOrders info) = Some targetOrders
    \<and> PublicKeyFromBase58 L (info_BaseVault info) = Some baseVault
    \<and> PublicKeyFromBase58 L (info_QuoteVault info) = Some quoteVault
    \<and> PublicKeyFromBase58 L (info_MarketProgramID info) = Some marketProgram
    \<and> PublicKeyFromBase58 L (info_MarketID info) = Some market
    \<and> PublicKeyFromBase58 L (info_MarketBids info) = Some marketBids
    \<and> PublicKeyFromBase58 L (info_MarketAsks info) = Some marketAsks
    \<and> PublicKeyFromBase58 L (info_MarketEventQueue info) = Some marketEventQueue
    \<and> PublicKeyFromBase58 L (info_MarketBaseVault info) = Some marketBaseVault
    \<and> PublicKeyFromBase58 L (info_MarketQuoteVault info) = Some marketQuoteVault
    \<and> PublicKeyFromBase58 L (info_MarketAuthority info) = Some marketAuthority
    \<and> PublicKeyFromBase58 L (info_ProgramID info) = Some programID
    \<and> BorshEncode L 9 amountIn minAmountOut = Some buf
    \<and> apiIx = \<lparr>ProgramID = programID,
          Accounts =
            [meta (TokenProgramID L) False False, meta poolPubkey False True,
             meta authority False False, meta openOrders False True,
             meta targetOrders False True, meta baseVault False True,
             meta quoteVault False True, meta marketProgram False False,
             meta market False True, meta marketBids False True,
             meta marketAsks False True, meta marketEventQueue False True,
             meta marketBaseVault False True, meta marketQuoteVault False True,
             meta marketAuthority False False, meta userSource False True,
             meta userDestination False True, meta userOwner True False],
          Data = buf\<rparr>"
  using assms unfolding CreateRaydiumSwapInstruction_def Must_def
  by (simp split: option.splits)

lemma createSwapInstruction_built:
  assumes "marketVaultSigner L pool = Inr signer"
  shows "\<exists>swapIx. createSwapInstruction L pool userSource userDestination userOwner amountIn
      minAmountOut isBaseToQuote = Inr swapIx
    \<and> Data swapIx = encodeSwapData amountIn minAmountOut"
  using assms by (simp add: createSwapInstruction_def)

lemma CreateRaydiumSwapInstruction_built:
  assumes enc: "BorshEncode L 9 amountIn minAmountOut = Some buf"
    and keys: "\<forall>s \<in> set (infoKeys info). PublicKeyFromBase58 L s \<noteq> None"
  shows "\<exists>apiIx. CreateRaydiumSwapInstruction L info userSource userDestination userOwner
      amountIn minAmountOut = Inr apiIx \<and> Data apiIx = buf"
proof -
  from keys obtain poolPubkey authority openOrders targetOrders baseVault quoteVault
    marketProgram market marketBids marketAsks marketEventQueue marketBaseVault
    marketQuoteVault marketAuthority programID where
    "PublicKeyFromBase58 L (info_ID info) = Some poolPubkey"
    "PublicKeyFromBase58 L (info_Authority info) = Some authority"
    "PublicKeyFromBase58 L (info_OpenOrders info) = Some openOrders"
    "PublicKeyFromBase58 L (info_TargetOrders info) = Some targetOrders"
    "PublicKeyFromBase58 L (info_BaseVault info) = Some baseVault"
    "PublicKeyFromBase58 L (info_QuoteVault info) = Some quoteVault"
    "PublicKeyFromBase58 L (info_MarketProgramID info) = Some marketProgram"
    "PublicKeyFromBase58 L (info_MarketID info) = Some market"
    "PublicKeyFromBase58 L (info_MarketBids info) = Some marketBids"
    "PublicKeyFromBase58 L (info_MarketAsks info) = Some marketAsks"
    "PublicKeyFromBase58 L (info_MarketEventQueue info) = Some marketEventQueue"
    "PublicKeyFromBase58 L (info_MarketBaseVault info) = Some marketBaseVault"
    "PublicKeyFromBase58 L (info_MarketQuoteVault info) = Some marketQuoteVault"
    "PublicKeyFromBase58 L (info_MarketAuthority info) = Some marketAuthority"
    "PublicKeyFromBase58 L (info_ProgramID info) = Some programID"
    unfolding infoKeys_def by fastforce
  then show ?thesis
    unfolding CreateRaydiumSwapInstruction_def Must_def by (simp add: enc)
qed

text \<open>
  Claim C3. The payload of \<^verbatim>\<open>createSwapInstruction\<close> has exactly 17 bytes: the
  opcode 9, then \<open>amountIn\<close> and \<open>minAmountOut\<close>, each as eight bytes of which byte
  \<open>i\<close> holds bits \<open>8i\<close> to \<open>8i+7\<close>; reading a payload back gives the opcode and the two
  amounts again. This payload is the data of every instruction built, and one is built
  whenever the vault signer resolves. \<^verbatim>\<open>CreateRaydiumSwapInstruction\<close> hands opcode
  9 and the two amounts, in this order, to the Borsh encoder: with an encoder that
  writes the Borsh layout its instruction carries the same 17 bytes, and one is built
  whenever the texts of the pool description decode.
\<close>

theorem swap_payload_layout_roundtrip:
  "length (encodeSwapData amountIn minAmountOut) = 17
   \<and> encodeSwapData amountIn minAmountOut ! 0 = 9
   \<and> (\<forall>i<8. encodeSwapData amountIn minAmountOut ! (1 + i) = ucast (drop_bit (8 * i) amountIn))
   \<and> (\<forall>i<8. encodeSwapData amountIn minAmountOut ! (9 + i) = ucast (drop_bit (8 * i) minAmountOut))
   \<and> decodeSwapData (encodeSwapData amountIn minAmountOut) = Some (9, amountIn, minAmountOut)
   \<and> (createSwapInstruction L pool userSource userDestination userOwner amountIn minAmountOut
         isBaseToQuote = Inr swapIx
        \<longrightarrow> Data swapIx = encodeSwapData amountIn minAmountOut)
   \<and> (marketVaultSigner L pool = Inr signer
        \<longrightarrow> (\<exists>built. createSwapInstruction L pool userSource userDestination userOwner amountIn
                minAmountOut isBaseToQuote = Inr built
              \<and> Data built = encodeSwapData amountIn minAmountOut))
   \<and> ((\<forall>opcode a b. BorshEncode L opcode a b = Some (borshSwapLayout opcode a b))
        \<and> CreateRaydiumSwapInstruction L info userSource userDestination userOwner amountIn
             minAmountOut = Inr apiIx
        \<longrightarrow> Data apiIx = encodeSwapData amountIn minAmountOut
          \<and> length (Data apiIx) = 17
          \<and> decodeSwapData (Data apiIx) = Some (9, amountIn, minAmountOut))
   \<and> ((\<forall>opcode a b. BorshEncode L opcode a b = Some (borshSwapLayout opcode a b))
        \<and> (\<forall>s \<in> set (infoKeys info). PublicKeyFromBase58 L s \<noteq> None)
        \<longrightarrow> (\<exists>built. CreateRaydiumSwapInstruction L info userSource userDestination userOwner
                amountIn minAmountOut = Inr built
              \<and> Data built = encodeSwapData amountIn minAmountOut))"
proof (intro conjI allI impI)
  show len: "length (encodeSwapData amountIn minAmountOut) = 17"
    by (simp add: encodeSwapData_def length_PutUint64)
  show "encodeSwapData amountIn minAmountOut ! 0 = 9"
    by (simp add: encodeSwapData_def RAYDIUM_SWAP_INSTRUCTION_def)
  show "encodeSwapData amountIn minAmountOut ! (1 + i) = ucast (drop_bit (8 * i) amountIn)"
    if "i < 8" for i
    using that by (simp add: encodeSwapData_def nth_append length_PutUint64 PutUint64_nth)
  show "encodeSwapData amountIn minAmountOut ! (9 + i) = ucast (drop_bit (8 * i) minAmountOut)"
    if "i < 8" for i
    using that by (simp add: encodeSwapData_def nth_append length_PutUint64 PutUint64_nth)
  show roundtrip: "decodeSwapData (encodeSwapData amountIn minAmountOut) = Some (9, amountIn, minAmountOut)"
    by (simp add: decodeSwapData_def encodeSwapData_def length_PutUint64 Uint64LE_PutUint64
        RAYDIUM_SWAP_INSTRUCTION_def)
  show "Data swapIx = encodeSwapData amountIn minAmountOut"
    if "createSwapInstruction L pool userSource userDestination userOwner amountIn minAmountOut
          isBaseToQuote = Inr swapIx"
    using createSwapInstruction_Inr[OF that] by auto
  show "\<exists>built. createSwapInstruction L pool userSource userDestination userOwner amountIn
                minAmountOut isBaseToQuote = Inr built
              \<and> Data built = encodeSwapData amountIn minAmountOut"
    if "marketVaultSigner L pool = Inr signer"
    using that by (rule createSwapInstruction_built)
  have same: "borshSwapLayout 9 amountIn minAmountOut = encodeSwapData amountIn minAmountOut"
    by (simp add: borshSwapLayout_def encodeSwapData_def RAYDIUM_SWAP_INSTRUCTION_def)
  {
    assume a: "(\<forall>opcode a b. BorshEncode L opcode a b = Some (borshSwapLayout opcode a b))
        \<and> CreateRaydiumSwapInstruction L info userSource userDestination userOwner amountIn
             minAmountOut = Inr apiIx"
    then have enc: "BorshEncode L 9 amountIn minAmountOut = Some (encodeSwapData amountIn minAmountOut)"
      using same by simp
    from a CreateRaydiumSwapInstruction_Inr[of L info userSource userDestination userOwner
        amountIn minAmountOut apiIx]
    obtain buf where "BorshEncode L 9 amountIn minAmountOut = Some buf" and "Data apiIx = buf"
      by auto
    with enc show data: "Data apiIx = encodeSwapData amountIn minAmountOut" by simp
    show "length (Data apiIx) = 17" using data len by simp
    show "decodeSwapData (Data apiIx) = Some (9, amountIn, minAmountOut)" using data roundtrip by simp
  }
  {
    assume a: "(\<forall>opcode a b. BorshEncode L opcode a b = Some (borshSwapLayout opcode a b))
        \<and> (\<forall>s \<in> set (infoKeys info). PublicKeyFromBase58 L s \<noteq> None)"
    then have enc: "BorshEncode L 9 amountIn minAmountOut = Some (encodeSwapData amountIn minAmountOut)"
      using same by simp
    from a have keys: "\<forall>s \<in> set (infoKeys info). PublicKeyFromBase58 L s \<noteq> None" by simp
    show "\<exists>built. CreateRaydiumSwapInstruction L info userSource userDestination userOwner
                amountIn minAmountOut = Inr built
              \<and> Data built = encodeSwapData amountIn minAmountOut"
      using CreateRaydiumSwapInstruction_built[OF enc keys] .
  }
qed

theorem swap_payload_layout_roundtrip_witness:
  "encodeSwapData 1000000 5 ! (1 + 1) = 66
   \<and> encodeSwapData 1000000 5 ! (9 + 0) = 5
   \<and> decodeSwapData (encodeSwapData 1000000 5) = Some (9, 1000000, 5)
   \<and> (\<exists>swapIx. createSwapInstruction sampleLib samplePool sampleWallet sampleToken sampleWallet
          1000000 5 True = Inr swapIx
        \<and> Data swapIx = encodeSwapData 1000000 5)
   \<and> (\<exists>apiIx. CreateRaydiumSwapInstruction sampleLib sampleInfo sampleWallet sampleToken
          sampleWallet 1000000 5 = Inr apiIx
        \<and> Data apiIx = encodeSwapData 1000000 5
        \<and> decodeSwapData (Data apiIx) = Some (9, 1000000, 5))"
proof -
  obtain signer where signer: "marketVaultSigner sampleLib samplePool = Inr signer"
    by (simp add: marketVaultSigner_def samplePool_def zeroPool_def IsZero_def)
  have borsh: "\<forall>opcode a b. BorshEncode sampleLib opcode a b = Some (borshSwapLayout opcode a b)"
    by (simp add: sampleLib_def borshSwapLayout_def)
  have keys: "\<forall>s \<in> set (infoKeys sampleInfo). PublicKeyFromBase58 sampleLib s \<noteq> None"
    by (simp add: infoKeys_def sampleInfo_def sampleLib_def sampleAddress_def)
  note main = swap_payload_layout_roundtrip[where amountIn = 1000000 and minAmountOut = 5
      and L = sampleLib and pool = samplePool and userSource = sampleWallet
      and userDestination = sampleToken and userOwner = sampleWallet and isBaseToQuote = True
      and signer = signer and info = sampleInfo]
  from main signer obtain swapIx where built:
    "createSwapInstruction sampleLib samplePool sampleWallet sampleToken sampleWallet
       1000000 5 True = Inr swapIx"
    by blast
  from main borsh keys obtain apiIx where api:
    "CreateRaydiumSwapInstruction sampleLib sampleInfo sampleWallet sampleToken sampleWallet
       1000000 5 = Inr apiIx"
    by blast
  note inst = swap_payload_layout_roundtrip[where amountIn = 1000000 and minAmountOut = 5
      and L = sampleLib and pool = samplePool and userSource = sampleWallet
      and userDestination = sampleToken and userOwner = sampleWallet and isBaseToQuote = True
      and swapIx = swapIx and info = sampleInfo and apiIx = apiIx]
  have one: "(1 :: nat) < 8" and zero: "(0 :: nat) < 8" by simp_all
  have b1: "(ucast (drop_bit (8 * 1) (1000000 :: u64)) :: byte) = 66" by simp
  have b0: "(ucast (drop_bit (8 * 0) (5 :: u64)) :: byte) = 5" by simp
  from inst have "encodeSwapData 1000000 5 ! (1 + 1) = ucast (drop_bit (8 * 1) (1000000 :: u64))"
    using one by blast
  moreover from inst have "encodeSwapData 1000000 5 ! (9 + 0) = ucast (drop_bit (8 * 0) (5 :: u64))"
    using zero by blast
  moreover from inst have "decodeSwapData (encodeSwapData 1000000 5) = Some (9, 1000000, 5)"
    by blast
  moreover from inst built have "Data swapIx = encodeSwapData 1000000 5" by blast
  moreover from inst borsh api have "Data apiIx = encodeSwapData 1000000 5
      \<and> decodeSwapData (Data apiIx) = Some (9, 1000000, 5)" by blast
  ultimately show ?thesis using b1 b0 built api by auto
qed


text \<open>
  Claim C4. Every swap instruction that is built lists exactly 18 accounts in the order
  token program, pool, authority, open orders, target orders, base vault, quote vault,
  market program, market, bids, asks, event queue, market base vault, market quote
  vault, vault signer, user source, user destination, user owner; the writable flags
  are fixed, and the owner, the last entry, is the only signer. This holds for the
  on-chain variant and for the API variant, whose keys are the decoded texts of the
  pool description.
\<close>

theorem swap_instruction_accounts:
  "(createSwapInstruction L pool userSource userDestination userOwner amountIn minAmountOut
      isBaseToQuote = Inr swapIx \<longrightarrow>
      (\<exists>signer. marketVaultSigner L pool = Inr signer
         \<and> map PublicKey (Accounts swapIx) =
             [TokenProgramID L, Address pool, Authority pool, OpenOrders pool,
              TargetOrders pool, BaseVault pool, QuoteVault pool, MarketProgram pool,
              Market pool, MarketBids pool, MarketAsks pool, MarketEventQueue pool,
              MarketBaseVault pool, MarketQuoteVault pool, signer, userSource,
              userDestination, userOwner])
      \<and> length (Accounts swapIx) = 18
      \<and> map IsWritable (Accounts swapIx) =
            [False, True, False, True, True, True, True, False, True, True, True, True, True,
             True, False, True, True, False]
      \<and> map IsSigner (Accounts swapIx) = replicate 17 False @ [True])
   \<and> (CreateRaydiumSwapInstruction L info userSource userDestination userOwner amountIn
        minAmountOut = Inr apiIx \<longrightarrow>
      map Some (map PublicKey (Accounts apiIx)) =
        [Some (TokenProgramID L), PublicKeyFromBase58 L (info_ID info),
         PublicKeyFromBase58 L (info_Authority info), PublicKeyFromBase58 L (info_OpenOrders info),
         PublicKeyFromBase58 L (info_TargetOrders info), PublicKeyFromBase58 L (info_BaseVault info),
         PublicKeyFromBase58 L (info_QuoteVault info),
         PublicKeyFromBase58 L (info_MarketProgramID info),
         PublicKeyFromBase58 L (info_MarketID info), PublicKeyFromBase58 L (info_MarketBids info),
         PublicKeyFromBase58 L (info_MarketAsks info),
         PublicKeyFromBase58 L (info_MarketEventQueue info),
         PublicKeyFromBase58 L (info_MarketBaseVault info),
         PublicKeyFromBase58 L (info_MarketQuoteVault info),
         PublicKeyFromBase58 L (info_MarketAuthority info),
         Some userSource, Some userDestination, Some userOwner]
      \<and> length (Accounts apiIx) = 18
      \<and> map IsWritable (Accounts apiIx) =
            [False, True, False, True, True, True, True, False, True, True, True, True, True,
             True, False, True, True, False]
      \<and> map IsSigner (Accounts apiIx) = replicate 17 False @ [True])"
proof (intro conjI impI)
  assume "createSwapInstruction L pool userSource userDestination userOwner amountIn
            minAmountOut isBaseToQuote = Inr swapIx"
  from createSwapInstruction_Inr[OF this] obtain signer where
    signer: "marketVaultSigner L pool = Inr signer" and
    accounts: "Accounts swapIx =
       [meta (TokenProgramID L) False False, meta (Address pool) False True,
        meta (Authority pool) False False, meta (OpenOrders pool) False True,
        meta (TargetOrders pool) False True, meta (BaseVault pool) False True,
        meta (QuoteVault pool) False True, meta (MarketProgram pool) False False,
        meta (Market pool) False True, meta (MarketBids pool) False True,
        meta (MarketAsks pool) False True, meta (MarketEventQueue pool) False True,
        meta (MarketBaseVault pool) False True, meta (MarketQuoteVault pool) False True,
        meta signer False False, meta userSource False True,
        meta userDestination False True, meta userOwner True False]"
    by auto
  show "\<exists>signer. marketVaultSigner L pool = Inr signer
         \<and> map PublicKey (Accounts swapIx) =
             [TokenProgramID L, Address pool, Authority pool, OpenOrders pool,
              TargetOrders pool, BaseVault pool, QuoteVault pool, MarketProgram pool,
              Market pool, MarketBids pool, MarketAsks pool, MarketEventQueue pool,
              MarketBaseVault pool, MarketQuoteVault pool, signer, userSource,
              userDestination, userOwner]"
    using signer by (simp add: accounts meta_def)
  show "length (Accounts swapIx) = 18" by (simp add: accounts)
  show "map IsWritable (Accounts swapIx) =
            [False, True, False, True, True, True, True, False, True, True, True, True, True,
             True, False, True, True, False]"
    by (simp add: accounts meta_def)
  show "map IsSigner (Accounts swapIx) = replicate 17 False @ [True]"
    by (simp add: accounts meta_def numeral_eq_Suc)
next
  assume "CreateRaydiumSwapInstruction L info userSource userDestination userOwner amountIn
            minAmountOut = Inr apiIx"
  from CreateRaydiumSwapInstruction_Inr[OF this] obtain poolPubkey authority openOrders
    targetOrders baseVault quoteVault marketProgram market marketBids marketAsks
    marketEventQueue marketBaseVault marketQuoteVault marketAuthority where
    keys: "PublicKeyFromBase58 L (info_ID info) = Some poolPubkey"
      "PublicKeyFromBase58 L (info_Authority info) = Some authority"
      "PublicKeyFromBase58 L (info_OpenOrders info) = Some openOrders"
      "PublicKeyFromBase58 L (info_TargetOrders info) = Some targetOrders"
      "PublicKeyFromBase58 L (info_BaseVault info) = Some baseVault"
      "PublicKeyFromBase58 L (info_QuoteVault info) = Some quoteVault"
      "PublicKeyFromBase58 L (info_MarketProgramID info) = Some marketProgram"
      "PublicKeyFromBase58 L (info_MarketID info) = Some market"
      "PublicKeyFromBase58 L (info_MarketBids info) = Some marketBids"
      "PublicKeyFromBase58 L (info_MarketAsks info) = Some marketAsks"
      "PublicKeyFromBase58 L (info_MarketEventQueue info) = Some marketEventQueue"
      "PublicKeyFromBase58 L (info_MarketBaseVault info) = Some marketBaseVault"
      "PublicKeyFromBase58 L (info_MarketQuoteVault info) = Some marketQuoteVault"
      "PublicKeyFromBase58 L (info_MarketAuthority info) = Some marketAuthority" and
    accounts: "Accounts apiIx =
       [meta (TokenProgramID L) False False, meta poolPubkey False True,
        meta authority False False, meta openOrders False True,
        meta targetOrders False True, meta baseVault False True,
        meta quoteVault False True, meta marketProgram False False,
        meta market False True, meta marketBids False True,
        meta marketAsks False True, meta marketEventQueue False True,
        meta marketBaseVault False True, meta marketQuoteVault False True,
        meta marketAuthority False False, meta userSource False True,
        meta userDestination False True, meta userOwner True False]"
    by auto
  show "map Some (map PublicKey (Accounts apiIx)) =
        [Some (TokenProgramID L), PublicKeyFromBase58 L (info_ID info),
         PublicKeyFromBase58 L (info_Authority info), PublicKeyFromBase58 L (info_OpenOrders info),
         PublicKeyFromBase58 L (info_TargetOrders info), PublicKeyFromBase58 L (info_BaseVault info),
         PublicKeyFromBase58 L (info_QuoteVault info),
         PublicKeyFromBase58 L (info_MarketProgramID info),
         PublicKeyFromBase58 L (info_MarketID info), PublicKeyFromBase58 L (info_MarketBids info),
         PublicKeyFromBase58 L (info_MarketAsks info),
         PublicKeyFromBase58 L (info_MarketEventQueue info),
         PublicKeyFromBase58 L (info_MarketBaseVault info),
         PublicKeyFromBase58 L (info_MarketQuoteVault info),
         PublicKeyFromBase58 L (info_MarketAuthority info),
         Some userSource, Some userDestination, Some userOwner]"
    by (simp add: accounts keys meta_def)
  show "length (Accounts apiIx) = 18" by (simp add: accounts)
  show "map IsWritable (Accounts apiIx) =
            [False, True, False, True, True, True, True, False, True, True, True, True, True,
             True, False, True, True, False]"
    by (simp add: accounts meta_def)
  show "map IsSigner (Accounts apiIx) = replicate 17 False @ [True]"
    by (simp add: accounts meta_def numeral_eq_Suc)
qed

lemma sampleLib_base58: "PublicKeyFromBase58 sampleLib sampleAddress = Some (bytes_of sampleAddress)"
  by (simp add: sampleLib_def sampleAddress_def)

lemma sample_swap_built:
  "\<exists>swapIx. createSwapInstruction sampleLib samplePool userSource userDestination userOwner
      amountIn minAmountOut isBaseToQuote = Inr swapIx"
  by (simp add: createSwapInstruction_def marketVaultSigner_def samplePool_def zeroPool_def
      IsZero_def)

lemma sample_api_swap_built:
  "\<exists>apiIx. CreateRaydiumSwapInstruction sampleLib sampleInfo userSource userDestination userOwner
      amountIn minAmountOut = Inr apiIx"
proof -
  have enc: "BorshEncode sampleLib 9 amountIn minAmountOut
      = Some ([9] @ PutUint64 amountIn @ PutUint64 minAmountOut)"
    by (simp add: sampleLib_def)
  show ?thesis
    unfolding CreateRaydiumSwapInstruction_def Must_def
    by (simp add: enc sampleInfo_def sampleLib_base58)
qed

theorem swap_instruction_accounts_witness:
  "(\<exists>swapIx. createSwapInstruction sampleLib samplePool sampleWallet sampleToken sampleWallet
       1000000 5 True = Inr swapIx
     \<and> length (Accounts swapIx) = 18
     \<and> map IsSigner (Accounts swapIx) = replicate 17 False @ [True])
   \<and> (\<exists>apiIx. CreateRaydiumSwapInstruction sampleLib sampleInfo sampleWallet sampleToken
       sampleWallet 1000000 5 = Inr apiIx
     \<and> length (Accounts apiIx) = 18
     \<and> map IsSigner (Accounts apiIx) = replicate 17 False @ [True])"
proof -
  obtain swapIx where built:
    "createSwapInstruction sampleLib samplePool sampleWallet sampleToken sampleWallet
       1000000 5 True = Inr swapIx"
    using sample_swap_built by blast
  obtain apiIx where api:
    "CreateRaydiumSwapInstruction sampleLib sampleInfo sampleWallet sampleToken sampleWallet
       1000000 5 = Inr apiIx"
    using sample_api_swap_built by blast
  note main = swap_instruction_accounts[where L = sampleLib and pool = samplePool
      and info = sampleInfo and userSource = sampleWallet and userDestination = sampleToken
      and userOwner = sampleWallet and amountIn = 1000000 and minAmountOut = 5
      and isBaseToQuote = True and swapIx = swapIx and apiIx = apiIx]
  from main built have "length (Accounts swapIx) = 18
      \<and> map IsSigner (Accounts swapIx) = replicate 17 False @ [True]" by blast
  moreover from main api have "length (Accounts apiIx) = 18
      \<and> map IsSigner (Accounts apiIx) = replicate 17 False @ [True]" by blast
  ultimately show ?thesis using built api by blast
qed

section \<open>Properties of the address derivation\<close>

















section \<open>Properties of the command line\<close>

text \<open>
  Claim C7, as amended. On a run that passes the argument checks, a token address, when
  given, decides the pool: the discovery scan runs for it and the quote is asked for the
  pool the scan returns, whatever pool address was given; the given pool address is used,
  without a scan, only when no token address is given.
\<close>

theorem token_address_takes_precedence:
  assumes "\<not> f_eq (arg_amount args) (Finite 0)"
    and "arg_side args = ''buy'' \<or> arg_side args = ''sell''"
    and "arg_execute args \<longrightarrow> walletLoads"
  shows "(arg_token args \<noteq> [] \<longrightarrow>
            main_quote findPoolsOnChain walletLoads args =
              (case findPoolsOnChain (arg_token args) of
                 Inl e \<Rightarrow> ([FindPoolsOnChain (arg_token args)], Fatal)
               | Inr found \<Rightarrow>
                   ([FindPoolsOnChain (arg_token args),
                     CalculateQuoteOnChain found (arg_amount args) (arg_side args)], Proceeds)))
       \<and> (arg_token args = [] \<and> arg_pool args \<noteq> [] \<longrightarrow>
            main_quote findPoolsOnChain walletLoads args =
              ([CalculateQuoteOnChain (arg_pool args) (arg_amount args) (arg_side args)], Proceeds))"
  using assms by (auto simp: main_quote_def split: sum.splits)

theorem token_address_takes_precedence_witness:
  "main_quote (\<lambda>token. Inr ''DiscoveredPool'') False
     \<lparr>arg_pool = ''GivenPool'', arg_token = ''Token'', arg_amount = Finite 1,
      arg_side = ''sell'', arg_execute = False\<rparr>
     = ([FindPoolsOnChain ''Token'', CalculateQuoteOnChain ''DiscoveredPool'' (Finite 1) ''sell''],
        Proceeds)
   \<and> main_quote (\<lambda>token. Inr ''DiscoveredPool'') True
     \<lparr>arg_pool = ''GivenPool'', arg_token = [], arg_amount = Finite 1,
      arg_side = ''buy'', arg_execute = True\<rparr>
     = ([CalculateQuoteOnChain ''GivenPool'' (Finite 1) ''buy''], Proceeds)"
proof -
  let ?both = "\<lparr>arg_pool = ''GivenPool'', arg_token = ''Token'', arg_amount = Finite 1,
      arg_side = ''sell'', arg_execute = False\<rparr>"
  let ?poolOnly = "\<lparr>arg_pool = ''GivenPool'', arg_token = [], arg_amount = Finite 1,
      arg_side = ''buy'', arg_execute = True\<rparr>"
  have a1: "\<not> f_eq (arg_amount ?both) (Finite 0)" by simp
  have a2: "arg_side ?both = ''buy'' \<or> arg_side ?both = ''sell''" by simp
  have a3: "arg_execute ?both \<longrightarrow> False" by simp
  have b1: "\<not> f_eq (arg_amount ?poolOnly) (Finite 0)" by simp
  have b2: "arg_side ?poolOnly = ''buy'' \<or> arg_side ?poolOnly = ''sell''" by simp
  have b3: "arg_execute ?poolOnly \<longrightarrow> True" by simp
  show ?thesis
    using token_address_takes_precedence[OF a1 a2 a3, of "\<lambda>token. Inr ''DiscoveredPool''"]
      token_address_takes_precedence[OF b1 b2 b3, of "\<lambda>token. Inr ''DiscoveredPool''"]
    by simp
qed

theorem pool_address_ignored_when_token_given:
  "main_quote (\<lambda>token. Inr ''DiscoveredPool'') True
     \<lparr>arg_pool = ''GivenPool'', arg_token = ''Token'', arg_amount = Finite 1,
      arg_side = ''buy'', arg_execute = False\<rparr>
   = ([FindPoolsOnChain ''Token'', CalculateQuoteOnChain ''DiscoveredPool'' (Finite 1) ''buy''],
      Proceeds)"
  by (simp add: main_quote_def)

section \<open>Properties of the instruction sequence\<close>

lemma getOrCreateATA_Inr:
  assumes "getOrCreateATA L C wallet mint = Inr (ata, created)"
  shows "FindAssociatedTokenAddress L wallet mint = Some ata
       \<and> created = (if accountExists C ata then None else Some (CreateATA wallet wallet mint))"
  using assms unfolding getOrCreateATA_def accountExists_def
  by (auto split: option.splits account_info.splits)

lemma compileInstructions_sell:
  assumes "compileInstructions L C wallet pool ''sell'' sourceMint destinationMint isBaseToQuote
             amountInRaw minAmountOut = Inr ixs"
  shows "\<exists>sourceATA destinationATA swapIx.
           FindAssociatedTokenAddress L wallet sourceMint = Some sourceATA
         \<and> FindAssociatedTokenAddress L wallet destinationMint = Some destinationATA
         \<and> createSwapInstruction L pool sourceATA destinationATA wallet amountInRaw minAmountOut
               isBaseToQuote = Inr swapIx
         \<and> ixs = sellSequence C wallet sourceMint sourceATA destinationMint destinationATA swapIx"
proof -
  from assms obtain sourceATA createSourceIx where
    src: "getOrCreateATA L C wallet sourceMint = Inr (sourceATA, createSourceIx)"
    unfolding compileInstructions_def by (auto split: sum.splits)
  from assms src obtain destinationATA createDestIx where
    dst: "getOrCreateATA L C wallet destinationMint = Inr (destinationATA, createDestIx)"
    unfolding compileInstructions_def by (auto simp: Let_def split: sum.splits)
  from assms src dst obtain swapIx where
    swap: "createSwapInstruction L pool sourceATA destinationATA wallet amountInRaw minAmountOut
             isBaseToQuote = Inr swapIx"
    unfolding compileInstructions_def by (auto simp: Let_def split: sum.splits)
  note s = getOrCreateATA_Inr[OF src] and d = getOrCreateATA_Inr[OF dst]
  have "ixs = sellSequence C wallet sourceMint sourceATA destinationMint destinationATA swapIx"
    using assms unfolding compileInstructions_def sellSequence_def
    by (auto simp: src dst swap s d Let_def split: if_splits)
  then show ?thesis using s d swap by blast
qed

lemma sellSequence_no_wrap:
  "\<forall>i \<in> set (sellSequence C wallet sourceMint sourceATA destinationMint destinationATA swapIx).
     \<not> isWrap i"
  by (simp add: sellSequence_def)

text \<open>
  Claim C8, as amended. On a sell, the instruction list is: a create-account instruction
  for the source mint when the wallet's source account does not exist, a create-account
  instruction for the destination mint when the wallet's destination account does not
  exist, the swap, and a close-account instruction when the destination mint is wrapped
  SOL. It holds no transfer of native balance and no sync instruction.
  \<^verbatim>\<open>executeSwap\<close> returns this list for the mints its direction block selects.
\<close>

theorem sell_instruction_sequence:
  "(compileInstructions L C wallet pool ''sell'' sourceMint destinationMint isBaseToQuote
      amountInRaw minAmountOut = Inr ixs \<longrightarrow>
      (\<exists>sourceATA destinationATA swapIx.
           FindAssociatedTokenAddress L wallet sourceMint = Some sourceATA
         \<and> FindAssociatedTokenAddress L wallet destinationMint = Some destinationATA
         \<and> createSwapInstruction L pool sourceATA destinationATA wallet amountInRaw minAmountOut
               isBaseToQuote = Inr swapIx
         \<and> ixs = sellSequence C wallet sourceMint sourceATA destinationMint destinationATA swapIx)
      \<and> (\<forall>i \<in> set ixs. \<not> isWrap i))
   \<and> (executeSwap L G C wallet poolAddress ''sell'' amountIn minAmountOut = Inr sent \<longrightarrow>
      (\<exists>loaded sourceMint' destinationMint' direction decimals sourceATA destinationATA swapIx.
           loadPool L G C poolAddress = Inr loaded
         \<and> swapDirection L loaded ''sell'' = (sourceMint', destinationMint', direction, decimals)
         \<and> FindAssociatedTokenAddress L wallet sourceMint' = Some sourceATA
         \<and> FindAssociatedTokenAddress L wallet destinationMint' = Some destinationATA
         \<and> sent = sellSequence C wallet sourceMint' sourceATA destinationMint' destinationATA swapIx)
      \<and> (\<forall>i \<in> set sent. \<not> isWrap i))"
proof (intro conjI impI)
  assume a: "compileInstructions L C wallet pool ''sell'' sourceMint destinationMint isBaseToQuote
      amountInRaw minAmountOut = Inr ixs"
  from compileInstructions_sell[OF a]
  show "\<exists>sourceATA destinationATA swapIx.
           FindAssociatedTokenAddress L wallet sourceMint = Some sourceATA
         \<and> FindAssociatedTokenAddress L wallet destinationMint = Some destinationATA
         \<and> createSwapInstruction L pool sourceATA destinationATA wallet amountInRaw minAmountOut
               isBaseToQuote = Inr swapIx
         \<and> ixs = sellSequence C wallet sourceMint sourceATA destinationMint destinationATA swapIx" .
  from compileInstructions_sell[OF a] show "\<forall>i \<in> set ixs. \<not> isWrap i"
    using sellSequence_no_wrap by blast
next
  assume a: "executeSwap L G C wallet poolAddress ''sell'' amountIn minAmountOut = Inr sent"
  then obtain loaded where loaded: "loadPool L G C poolAddress = Inr loaded"
    unfolding executeSwap_def by (auto split: sum.splits)
  obtain sourceMint' destinationMint' direction decimals where
    dir: "swapDirection L loaded ''sell'' = (sourceMint', destinationMint', direction, decimals)"
    by (cases "swapDirection L loaded ''sell''") auto
  have compiled: "compileInstructions L C wallet loaded ''sell'' sourceMint' destinationMint'
      direction (toRawAmount G amountIn decimals) minAmountOut = Inr sent"
    using a unfolding executeSwap_def by (simp add: loaded dir)
  from compileInstructions_sell[OF compiled] obtain sourceATA destinationATA swapIx where
    parts: "FindAssociatedTokenAddress L wallet sourceMint' = Some sourceATA"
      "FindAssociatedTokenAddress L wallet destinationMint' = Some destinationATA"
      "sent = sellSequence C wallet sourceMint' sourceATA destinationMint' destinationATA swapIx"
    by blast
  show "\<exists>loaded sourceMint' destinationMint' direction decimals sourceATA destinationATA swapIx.
           loadPool L G C poolAddress = Inr loaded
         \<and> swapDirection L loaded ''sell'' = (sourceMint', destinationMint', direction, decimals)
         \<and> FindAssociatedTokenAddress L wallet sourceMint' = Some sourceATA
         \<and> FindAssociatedTokenAddress L wallet destinationMint' = Some destinationATA
         \<and> sent = sellSequence C wallet sourceMint' sourceATA destinationMint' destinationATA swapIx"
    using loaded dir parts by blast
  show "\<forall>i \<in> set sent. \<not> isWrap i"
    using parts(3) sellSequence_no_wrap by blast
qed

lemma sampleSourceATA_found:
  "FindAssociatedTokenAddress sampleLib sampleWallet sampleToken = Some sampleSourceATA"
  by (simp add: sampleLib_def sampleToken_def sampleSourceATA_def)

lemma sampleDestATA_found:
  "FindAssociatedTokenAddress sampleLib sampleWallet WSOL_MINT = Some sampleDestATA"
  by (simp add: sampleLib_def sampleDestATA_def)

lemma sampleDestATA_differs: "sampleDestATA \<noteq> sampleSourceATA"
  by (simp add: sampleDestATA_def sampleSourceATA_def WSOL_MINT_def numeral_eq_Suc)

lemma seller_accounts:
  "getOrCreateATA sampleLib sellerClient sampleWallet sampleToken = Inr (sampleSourceATA, None)"
  "getOrCreateATA sampleLib sellerClient sampleWallet WSOL_MINT
     = Inr (sampleDestATA, Some (CreateATA sampleWallet sampleWallet WSOL_MINT))"
  by (simp_all add: getOrCreateATA_def sampleSourceATA_found sampleDestATA_found sellerClient_def
      sampleDestATA_differs)

lemma seller_swap:
  "createSwapInstruction sampleLib samplePool sampleSourceATA sampleDestATA sampleWallet 5 1 True
     = Inr sampleSwapIx"
  by (simp add: createSwapInstruction_def marketVaultSigner_def samplePool_def zeroPool_def
      IsZero_def sampleLib_def sampleSwapIx_def encodeSwapData_def PutUint64_def
      RAYDIUM_SWAP_INSTRUCTION_def)

lemma seller_token_not_wsol: "sampleToken \<noteq> WSOL_MINT"
  by (simp add: sampleToken_def WSOL_MINT_def numeral_eq_Suc)

lemma seller_compiles:
  "compileInstructions sampleLib sellerClient sampleWallet samplePool ''sell'' sampleToken
     WSOL_MINT True 5 1
   = Inr [CreateATA sampleWallet sampleWallet WSOL_MINT, Swap sampleSwapIx,
          CloseAccount sampleDestATA sampleWallet sampleWallet]"
  by (simp add: compileInstructions_def seller_accounts seller_swap seller_token_not_wsol)

theorem sell_creates_destination_account:
  "compileInstructions sampleLib sellerClient sampleWallet samplePool ''sell'' sampleToken
     WSOL_MINT True 5 1
   = Inr [CreateATA sampleWallet sampleWallet WSOL_MINT, Swap sampleSwapIx,
          CloseAccount sampleDestATA sampleWallet sampleWallet]
   \<and> sampleToken \<noteq> WSOL_MINT"
  using seller_compiles seller_token_not_wsol by simp

lemma sampleLib_signer: "\<exists>signer. marketVaultSigner sampleLib pool = Inr signer"
  by (simp add: marketVaultSigner_def sampleLib_def sampleFindProgramAddress_def
      split: option.splits)

lemma sampleLib_swap_built:
  "\<exists>swapIx. createSwapInstruction sampleLib pool userSource userDestination userOwner amountIn
      minAmountOut isBaseToQuote = Inr swapIx"
proof -
  obtain signer where "marketVaultSigner sampleLib pool = Inr signer"
    using sampleLib_signer by blast
  then show ?thesis by (simp add: createSwapInstruction_def)
qed

lemma fullClient_compiles:
  "\<exists>ixs. compileInstructions sampleLib fullClient wallet pool side sourceMint destinationMint
      isBaseToQuote amountInRaw minAmountOut = Inr ixs"
proof -
  have ata: "getOrCreateATA sampleLib fullClient wallet mint = Inr (map (\<lambda>b. b + 1) mint, None)"
    for mint
    by (simp add: getOrCreateATA_def sampleLib_def fullClient_def)
  obtain swapIx where
    "createSwapInstruction sampleLib pool (map (\<lambda>b. b + 1) sourceMint)
       (map (\<lambda>b. b + 1) destinationMint) wallet amountInRaw minAmountOut isBaseToQuote
     = Inr swapIx"
    using sampleLib_swap_built by blast
  then show ?thesis by (simp add: compileInstructions_def ata Let_def)
qed

lemma fullClient_executes:
  "\<exists>sent. executeSwap sampleLib sampleRuntime fullClient wallet sampleAddress side amountIn
      minAmountOut = Inr sent"
proof -
  obtain loaded where loaded: "loadPool sampleLib sampleRuntime fullClient sampleAddress = Inr loaded"
    using fullClient_loadPool by blast
  obtain sourceMint destinationMint direction decimals where
    dir: "swapDirection sampleLib loaded side = (sourceMint, destinationMint, direction, decimals)"
    by (cases "swapDirection sampleLib loaded side") auto
  obtain sent where "compileInstructions sampleLib fullClient wallet loaded side sourceMint
      destinationMint direction (toRawAmount sampleRuntime amountIn decimals) minAmountOut
      = Inr sent"
    using fullClient_compiles by blast
  then show ?thesis by (simp add: executeSwap_def loaded dir)
qed

theorem sell_instruction_sequence_witness:
  "(\<exists>ixs. compileInstructions sampleLib sellerClient sampleWallet samplePool ''sell'' sampleToken
       WSOL_MINT True 5 1 = Inr ixs
     \<and> ixs = sellSequence sellerClient sampleWallet sampleToken sampleSourceATA WSOL_MINT
               sampleDestATA sampleSwapIx
     \<and> (\<forall>i \<in> set ixs. \<not> isWrap i))
   \<and> (\<exists>sent. executeSwap sampleLib sampleRuntime fullClient sampleWallet sampleAddress ''sell''
       (Finite 1) 1 = Inr sent
     \<and> (\<forall>i \<in> set sent. \<not> isWrap i))"
proof -
  obtain sent where sent:
    "executeSwap sampleLib sampleRuntime fullClient sampleWallet sampleAddress ''sell''
       (Finite 1) 1 = Inr sent"
    using fullClient_executes by blast
  note main = sell_instruction_sequence[where L = sampleLib and C = sellerClient
      and wallet = sampleWallet and pool = samplePool and sourceMint = sampleToken
      and destinationMint = WSOL_MINT and isBaseToQuote = True and amountInRaw = 5
      and minAmountOut = 1
      and ixs = "[CreateATA sampleWallet sampleWallet WSOL_MINT, Swap sampleSwapIx,
          CloseAccount sampleDestATA sampleWallet sampleWallet]"]
  note run = sell_instruction_sequence[where L = sampleLib and G = sampleRuntime
      and C = fullClient and wallet = sampleWallet and poolAddress = sampleAddress
      and amountIn = "Finite 1" and minAmountOut = 1 and sent = sent]
  from main seller_compiles
  have seq: "[CreateATA sampleWallet sampleWallet WSOL_MINT, Swap sampleSwapIx,
          CloseAccount sampleDestATA sampleWallet sampleWallet]
      = sellSequence sellerClient sampleWallet sampleToken sampleSourceATA WSOL_MINT
               sampleDestATA sampleSwapIx"
    by (simp add: sampleSourceATA_found sampleDestATA_found seller_swap)
  from main seller_compiles
  have clean: "\<forall>i \<in> set [CreateATA sampleWallet sampleWallet WSOL_MINT, Swap sampleSwapIx,
          CloseAccount sampleDestATA sampleWallet sampleWallet]. \<not> isWrap i"
    by blast
  from run sent have "\<forall>i \<in> set sent. \<not> isWrap i" by blast
  then show ?thesis using seller_compiles seq clean sent by auto
qed

section \<open>Properties of the amount conversion\<close>

lemma executeSwap_raw_amount:
  "swapDirection L pool side = (sourceMint, destinationMint, isBaseToQuote, inputDecimals) \<Longrightarrow>
   inputDecimals =
     (if side = ''buy'' then SOL_DECIMALS
      else if BaseMint pool = WSOL_MINT \<or> BaseMint pool = SolMint L then unat (QuoteDecimals pool)
      else unat (BaseDecimals pool))"
  by (auto simp: swapDirection_def Let_def split: if_splits)

lemma quoteDirection_input_decimals:
  "quoteDirection L pool side = (inputDecimals, outputDecimals, isBaseToQuote) \<Longrightarrow>
   inputDecimals =
     (if side = ''buy'' then SOL_DECIMALS
      else if BaseMint pool = WSOL_MINT \<or> BaseMint pool = SolMint L then unat (QuoteDecimals pool)
      else unat (BaseDecimals pool))"
  by (auto simp: quoteDirection_def Let_def split: if_splits)

text \<open>
  Claim C5, at the input where the code departs from it. \<^verbatim>\<open>executeSwap\<close> and
  \<^verbatim>\<open>calculateQuoteOnChain\<close> multiply the amount by ten to the power of the input
  side's decimal count. The sell path of \<^verbatim>\<open>ExecuteRaydiumSwap\<close> multiplies by the
  decimal count itself: in every runtime where, as in IEEE arithmetic, the integer 6
  converts to 6.0, 1.0 times 6.0 is 6.0 and 6.0 truncates to 6, selling 1.0 of a token
  with 6 decimals gives the raw amount 6, where the power of ten gives 1000000.
\<close>

theorem raydium_sell_scales_by_decimal_count:
  assumes "float_of_int G 6 = Finite 6"
    and "fmul G (Finite 1) (Finite 6) = Finite 6"
    and "to_uint64 G (Finite 6) = 6"
    and "info_QuoteDecimals info = 6"
  shows "raydiumAmountInRaw G info ''sell'' (Finite 1) = 6
       \<and> toRawAmount G (Finite 1) 6 = to_uint64 G (fmul G (Finite 1) (Pow10 G 6))
       \<and> (6 :: u64) \<noteq> 10 ^ 6"
  using assms by (simp add: raydiumAmountInRaw_def toRawAmount_def)

theorem raydium_sell_scales_by_decimal_count_witness:
  "raydiumAmountInRaw sampleRuntime sampleInfo ''sell'' (Finite 1) = 6
   \<and> toRawAmount sampleRuntime (Finite 1) 6 = 1000000"
proof -
  have a: "float_of_int sampleRuntime 6 = Finite 6" by (simp add: sampleRuntime_def)
  have b: "fmul sampleRuntime (Finite 1) (Finite 6) = Finite 6" by (simp add: sampleRuntime_def)
  have c: "to_uint64 sampleRuntime (Finite 6) = 6" by (simp add: sampleRuntime_def)
  have d: "info_QuoteDecimals sampleInfo = 6" by (simp add: sampleInfo_def)
  have e: "to_uint64 sampleRuntime (fmul sampleRuntime (Finite 1) (Pow10 sampleRuntime 6)) = 1000000"
    by (simp add: sampleRuntime_def)
  show ?thesis using raydium_sell_scales_by_decimal_count[OF a b c d] e by simp
qed

section \<open>Properties of the slippage prompt\<close>

lemma getSlippageFromUser_error_iff:
  assumes "TrimSpace G text \<noteq> []"
  shows "(\<exists>e. getSlippageFromUser G (Some text) = Inl e) \<longleftrightarrow>
     (case ParseFloat G (TrimSuffix (TrimSpace G (TrimSpace G text)) ''%'') of
        None \<Rightarrow> True
      | Some v \<Rightarrow> f_less v (Finite 0) \<or> f_less (Finite 100) v)"
  using assms by (auto simp: getSlippageFromUser_def parseFloat_def Let_def split: option.splits)

lemma getSlippageFromUser_default:
  "getSlippageFromUser G None = Inr (Finite (1 / 2))"
  "TrimSpace G text = [] \<Longrightarrow> getSlippageFromUser G (Some text) = Inr (Finite (1 / 2))"
  by (simp_all add: getSlippageFromUser_def)

text \<open>
  Claim C10, at the input where the code departs from it. The reader rejects a value
  only when it compares below 0 or above 100; NaN compares false both ways. In every
  runtime that, as Go does, leaves the text \<^verbatim>\<open>NaN\<close> untrimmed and parses it to NaN, the
  line \<^verbatim>\<open>NaN\<close> is accepted and NaN is returned with no error, in main.go and in
  main\_working.go, though NaN is neither at least 0 nor at most 100.
\<close>

theorem getSlippageFromUser_accepts_NaN:
  assumes "TrimSpace G ''NaN'' = ''NaN''" and "ParseFloat G ''NaN'' = Some NaN"
  shows "getSlippageFromUser G (Some ''NaN'') = Inr NaN
       \<and> getSlippageFromUser_working G ''NaN'' = Inr NaN
       \<and> \<not> (f_less (Finite 0) NaN \<or> f_eq (Finite 0) NaN)
       \<and> \<not> (f_less NaN (Finite 100) \<or> f_eq NaN (Finite 100))"
  using assms
  by (simp add: getSlippageFromUser_def getSlippageFromUser_working_def parseFloat_def
      TrimSuffix_def)

theorem getSlippageFromUser_accepts_NaN_witness:
  "getSlippageFromUser sampleRuntime (Some ''NaN'') = Inr NaN
   \<and> getSlippageFromUser_working sampleRuntime ''NaN'' = Inr NaN"
proof -
  have a: "TrimSpace sampleRuntime ''NaN'' = ''NaN''"
    by (simp add: sampleRuntime_def sampleTrimSpace_def asciiBlank_def)
  have b: "ParseFloat sampleRuntime ''NaN'' = Some NaN"
    by (simp add: sampleRuntime_def sampleParseFloat_def)
  show ?thesis using getSlippageFromUser_accepts_NaN[OF a b] by simp
qed

lemma sample_percent_input:
  "getSlippageFromUser sampleRuntime (Some '' 2.5% '') = Inr (Finite (5 / 2))"
  "getSlippageFromUser sampleRuntime (Some ''101'') = Inl SlippageOutOfRange"
  "getSlippageFromUser sampleRuntime (Some ''-1'') = Inl SlippageOutOfRange"
  "getSlippageFromUser sampleRuntime (Some ''abc'') = Inl InvalidSlippageValue"
  "getSlippageFromUser sampleRuntime (Some ''100'') = Inr (Finite 100)"
  "getSlippageFromUser sampleRuntime (Some ''  '') = Inr (Finite (1 / 2))"
  by (simp_all add: getSlippageFromUser_def parseFloat_def TrimSuffix_def sampleRuntime_def
      sampleTrimSpace_def asciiBlank_def sampleParseFloat_def)

end
